theory Spec2Isabelle
  imports Main "HOL-Library.AList"
begin

section \<open>The configuration tree and the results of a check\<close>

text \<open>
  The operator keeps the engine configuration as an untyped tree
  (\<^verbatim>\<open>map[string]interface{}\<close> in the Go source).  A node is nil, a bool, a number, a
  string, a list or a map.  A Go map is represented by its association list, read with
  \<open>map_of\<close>; two trees are deeply equal (\<^verbatim>\<open>reflect.DeepEqual\<close>) when their
  representations are equal, the list of a map being kept in one fixed key order.
\<close>

datatype val =
    VNil
  | VBool bool
  | VNum int
  | VStr string
  | VList "val list"
  | VMap "(string \<times> val) list"

type_synonym conf = "(string \<times> val) list"

text \<open>
  \<^verbatim>\<open>intstr.IntOrString\<close> of the Kubernetes API: an integer count or a string.
\<close>

datatype IntOrString = IntVal int | StrVal string

datatype VolumeMode = Block | Filesystem

datatype VolumeSource = PersistentVolume VolumeMode | Secret | EmptyDir

record Volume =
  Name :: string
  Source :: VolumeSource
  AerospikePath :: "string option"
  CascadeDelete :: "bool option"

record AerospikeStorageSpec =
  Volumes :: "Volume list"

section \<open>The cluster descriptor\<close>

text \<open>
  \<^verbatim>\<open>AerospikeConfigSpec\<close> wraps the tree; \<open>None\<close> is the nil map, which reads as
  the empty one.  The records keep the fields that the checks below read.
\<close>

record AerospikeConfigSpec =
  Value :: "conf option"

definition valueOf :: "AerospikeConfigSpec \<Rightarrow> conf" where
  "valueOf s = (case Value s of None \<Rightarrow> [] | Some m \<Rightarrow> m)"

record Rack =
  ID :: int
  NodeName :: string
  RackLabel :: string
  Region :: string
  Zone :: string
  AerospikeConfig :: AerospikeConfigSpec
  Storage :: AerospikeStorageSpec

section \<open>Errors and panics\<close>

text \<open>
  A check returns nil or an error built by \<^verbatim>\<open>fmt.Errorf\<close>; a failed type assertion
  panics.  An error value keeps the format string and its arguments apart, so that what
  a message names can be read off.
\<close>

datatype arg =
    AStr string
  | AInt int
  | AVal val
  | AStrs "string list"
  | ANames "string set"
  | AIntStr IntOrString
  | AStorage AerospikeStorageSpec
  | AVolume Volume
  | ARack Rack
  | AErr error
and error =
    Reject string "arg list"
  | Panic string

type_synonym result = "error + unit"

text \<open>Sequencing: the first error or panic ends the function.\<close>

definition bnd :: "error + 'a \<Rightarrow> ('a \<Rightarrow> error + 'b) \<Rightarrow> error + 'b" where
  "bnd m f = (case m of Inl e \<Rightarrow> Inl e | Inr x \<Rightarrow> f x)"

text \<open>
  \<^verbatim>\<open>fmt.Errorf(".. %v", err)\<close> around a returned error; a panic passes through
  unchanged.
\<close>

definition wrapErr :: "string \<Rightarrow> arg list \<Rightarrow> error + 'a \<Rightarrow> error + 'a" where
  "wrapErr fmt args r =
     (case r of
        Inl (Reject f a) \<Rightarrow> Inl (Reject fmt (args @ [AErr (Reject f a)]))
      | Inl (Panic p) \<Rightarrow> Inl (Panic p)
      | Inr x \<Rightarrow> Inr x)"

definition asMap :: "val \<Rightarrow> error + conf" where
  "asMap v = (case v of VMap m \<Rightarrow> Inr m
     | _ \<Rightarrow> Inl (Panic ''interface conversion: interface {} is not map[string]interface {}''))"

definition asList :: "val \<Rightarrow> error + val list" where
  "asList v = (case v of VList xs \<Rightarrow> Inr xs
     | _ \<Rightarrow> Inl (Panic ''interface conversion: interface {} is not []interface {}''))"

definition asString :: "val \<Rightarrow> error + string" where
  "asString v = (case v of VStr s \<Rightarrow> Inr s
     | _ \<Rightarrow> Inl (Panic ''interface conversion: interface {} is not string''))"

definition asBool :: "val \<Rightarrow> error + bool" where
  "asBool v = (case v of VBool b \<Rightarrow> Inr b
     | _ \<Rightarrow> Inl (Panic ''interface conversion: interface {} is not bool''))"

text \<open>\<^verbatim>\<open>m[k]\<close> without the presence flag: nil when the key is absent.\<close>

definition getKey :: "conf \<Rightarrow> string \<Rightarrow> val" where
  "getKey m k = (case map_of m k of None \<Rightarrow> VNil | Some v \<Rightarrow> v)"

text \<open>
  \<^verbatim>\<open>a == b\<close> on two interface values: values of different dynamic types are unequal,
  and comparing two maps or two slices panics.
\<close>

definition ifaceEq :: "val \<Rightarrow> val \<Rightarrow> error + bool" where
  "ifaceEq a b =
     (case (a, b) of
        (VList _, VList _) \<Rightarrow> Inl (Panic ''runtime error: comparing uncomparable type []interface {}'')
      | (VMap _, VMap _) \<Rightarrow>
          Inl (Panic ''runtime error: comparing uncomparable type map[string]interface {}'')
      | _ \<Rightarrow> Inr (a = b))"

definition HasPrefix :: "string \<Rightarrow> string \<Rightarrow> bool" where
  "HasPrefix s p = (take (length p) s = p)"

definition HasSuffix :: "string \<Rightarrow> string \<Rightarrow> bool" where
  "HasSuffix s p = (length p \<le> length s \<and> drop (length s - length p) s = p)"

section \<open>The cluster descriptor, continued\<close>

record RackConfig =
  Racks :: "Rack list"
  Namespaces :: "string list"
  RollingUpdateBatchSize :: "IntOrString option"
  ScaleDownBatchSize :: "IntOrString option"

datatype AerospikeNetworkType = Pod | HostInternal | HostExternal | ConfiguredIP | CustomInterface

record AerospikeNetworkPolicy =
  FabricType :: AerospikeNetworkType
  TLSFabricType :: AerospikeNetworkType
  CustomFabricNetworkNames :: "string list option"
  CustomTLSFabricNetworkNames :: "string list option"

record AerospikeCertPathInOperatorSource =
  ClientCertPath :: string

record AerospikeOperatorClientCertSpec =
  CertPathInOperator :: "AerospikeCertPathInOperatorSource option"

record AerospikePodSpec =
  MultiPodPerHost :: "bool option"

record AerospikeClusterSpec =
  Size :: int
  MaxUnavailable :: "IntOrString option"
  DisablePDB :: "bool option"
  SpecRackConfig :: RackConfig
  SpecAerospikeConfig :: AerospikeConfigSpec
  SpecStorage :: AerospikeStorageSpec
  PodSpec :: AerospikePodSpec
  SpecNetworkPolicy :: AerospikeNetworkPolicy
  OperatorClientCertSpec :: "AerospikeOperatorClientCertSpec option"

record AerospikeClusterStatus =
  StatusAerospikeConfig :: "AerospikeConfigSpec option"
  StatusRackConfig :: RackConfig

record AerospikeCluster =
  Spec :: AerospikeClusterSpec
  Status :: AerospikeClusterStatus

section \<open>Collaborators outside the validation file\<close>

text \<open>
  The checks call the Go standard library, the Kubernetes API machinery and helpers of
  other files.  Those that the development does not define are parameters of the model:
  \<^item> \<open>IsSecurityEnabled\<close>: whether a configuration has security enabled;
  \<^item> \<open>getAerospikeStorageList\<close>: the block device paths and the file system mount
    paths of a storage spec (the flag: persistent volumes only);
  \<^item> \<open>filepathDir\<close>, \<open>filepathRel\<close>: \<^verbatim>\<open>filepath.Dir\<close> and \<^verbatim>\<open>filepath.Rel\<close>
    (\<open>None\<close>: an error);
  \<^item> \<open>Atoi\<close>: \<^verbatim>\<open>strconv.Atoi\<close> (\<open>None\<close>: an error), and \<open>AtoiFailed\<close>: the number
    that \<^verbatim>\<open>strconv.Atoi\<close> returns beside an error, which is 0 for a string that is no
    number and the nearest bound of \<^verbatim>\<open>int\<close> for a number out of range;
  \<^item> \<open>ScalePercent\<close>: the share of a total that the Kubernetes library computes in
    floating point, \<^verbatim>\<open>int(math.Floor(float64(value) * float64(total) / 100))\<close>, with
    \<^verbatim>\<open>math.Ceil\<close> when the flag asks to round up;
  \<^item> \<open>TrimSpace\<close>, \<open>Fields\<close>: \<^verbatim>\<open>strings.TrimSpace\<close> and \<^verbatim>\<open>strings.Fields\<close>;
  \<^item> \<open>IsDNSName\<close>: the DNS name test of govalidator;
  \<^item> \<open>readCertificate\<close>: reading and parsing the certificate file at a path, giving the
    subject's common name and the DNS names.
\<close>

record env =
  IsSecurityEnabled :: "AerospikeConfigSpec \<Rightarrow> error + bool"
  getAerospikeStorageList :: "AerospikeStorageSpec \<Rightarrow> bool \<Rightarrow> error + (string list \<times> string list)"
  filepathDir :: "string \<Rightarrow> string"
  filepathRel :: "string \<Rightarrow> string \<Rightarrow> string option"
  Atoi :: "string \<Rightarrow> int option"
  AtoiFailed :: "string \<Rightarrow> int"
  ScalePercent :: "int \<Rightarrow> int \<Rightarrow> bool \<Rightarrow> int"
  TrimSpace :: "string \<Rightarrow> string"
  Fields :: "string \<Rightarrow> string list"
  IsDNSName :: "string \<Rightarrow> bool"
  readCertificate :: "string \<Rightarrow> error + (string \<times> string list)"

text \<open>
  Modelled from the spec: \<open>GetBool\<close>, \<open>GetIntType\<close>, \<open>ContainsString\<close>,
  \<open>isNameExist\<close> and \<open>isValueUpdated\<close> are helpers of a file that is not among the
  sources.  A nil flag reads as false; a number of the tree reads as that integer and
  anything else is an error; the two list tests are membership; a value is updated when
  the key is present on one side only or the two values are not deeply equal.
\<close>

definition GetBool :: "bool option \<Rightarrow> bool" where
  "GetBool b = (case b of None \<Rightarrow> False | Some v \<Rightarrow> v)"

definition GetIntType :: "val \<Rightarrow> error + int" where
  "GetIntType v =
     (case v of
        VNum n \<Rightarrow> Inr n
      | _ \<Rightarrow> Inl (Reject ''value %v not valid int, int64 or float64'' [AVal v]))"

definition ContainsString :: "string list \<Rightarrow> string \<Rightarrow> bool" where
  "ContainsString xs s = (s \<in> set xs)"

definition isNameExist :: "string list \<Rightarrow> string \<Rightarrow> bool" where
  "isNameExist names nm = (nm \<in> set names)"

definition isValueUpdated :: "conf \<Rightarrow> conf \<Rightarrow> string \<Rightarrow> bool" where
  "isValueUpdated m1 m2 key = (map_of m1 key \<noteq> map_of m2 key)"

section \<open>IntOrString values\<close>

text \<open>
  \<^verbatim>\<open>intstr.GetScaledValueFromIntOrPercent\<close> and \<^verbatim>\<open>IntOrString.IntValue\<close> of the
  Kubernetes API machinery.  A count scales to itself; a string must end in a percent
  sign after a number, and scales to that share of \<open>tot\<close>, rounded down or up in the
  floating point arithmetic of the library (\<open>ScalePercent\<close>).  \<open>IntValue\<close> of a string is
  what \<^verbatim>\<open>Atoi\<close> returns for the whole string, its error dropped.
\<close>

definition GetScaledValueFromIntOrPercent ::
  "env \<Rightarrow> IntOrString option \<Rightarrow> int \<Rightarrow> bool \<Rightarrow> error + int" where
  "GetScaledValueFromIntOrPercent E intOrPercent tot roundUp =
     (case intOrPercent of
        None \<Rightarrow> Inl (Reject ''nil value for IntOrString'' [])
      | Some (IntVal n) \<Rightarrow> Inr n
      | Some (StrVal s) \<Rightarrow>
          if HasSuffix s ''%'' then
            (case Atoi E (butlast s) of
               None \<Rightarrow> Inl (Reject ''invalid value for IntOrString: invalid value %q: %v'' [AStr s])
             | Some v \<Rightarrow> Inr (ScalePercent E v tot roundUp))
          else Inl (Reject ''invalid value for IntOrString: invalid type: string is not a percentage'' []))"

definition IntValue :: "env \<Rightarrow> IntOrString \<Rightarrow> int" where
  "IntValue E v =
     (case v of
        IntVal n \<Rightarrow> n
      | StrVal s \<Rightarrow> (case Atoi E s of None \<Rightarrow> AtoiFailed E s | Some i \<Rightarrow> i))"

definition isStringType :: "IntOrString \<Rightarrow> bool" where
  "isStringType v = (case v of IntVal _ \<Rightarrow> False | StrVal _ \<Rightarrow> True)"

definition validateIntOrStringField :: "env \<Rightarrow> IntOrString option \<Rightarrow> string \<Rightarrow> result" where
  "validateIntOrStringField E intOrStr fieldPath =
     bnd (GetScaledValueFromIntOrPercent E intOrStr 100 False) (\<lambda>count.
       case intOrStr of
         None \<Rightarrow> Inl (Panic ''nil pointer dereference'')
       | Some v \<Rightarrow>
           if count < 0 then
             Inl (Reject ''can not use negative %s: %s'' [AStr fieldPath, AIntStr v])
           else if isStringType v \<and> count > 100 then
             Inl (Reject ''%s: %s must not be greater than 100 percent'' [AStr fieldPath, AIntStr v])
           else Inr ())"

section \<open>Namespace helpers\<close>

definition IsNSSCEnabled :: "conf \<Rightarrow> error + bool" where
  "IsNSSCEnabled nsConf =
     (case map_of nsConf ''strong-consistency'' of
        None \<Rightarrow> Inr False
      | Some scEnabled \<Rightarrow> asBool scEnabled)"

definition getNamespaceReplicationFactor :: "conf \<Rightarrow> error + int" where
  "getNamespaceReplicationFactor nsConf =
     (let rfInterface = (case map_of nsConf ''replication-factor'' of
                           None \<Rightarrow> VNum 2
                         | Some v \<Rightarrow> v)
      in wrapErr ''namespace replication-factor %v'' [] (GetIntType rfInterface))"

definition isInMemoryNamespace :: "conf \<Rightarrow> error + bool" where
  "isInMemoryNamespace namespaceConf =
     (case map_of namespaceConf ''storage-engine'' of
        None \<Rightarrow> Inr False
      | Some storage \<Rightarrow>
          bnd (asMap storage) (\<lambda>storageConf.
            Inr (map_of storageConf ''type'' = Some (VStr ''memory''))))"

definition isDeviceOrPmemNamespace :: "conf \<Rightarrow> error + bool" where
  "isDeviceOrPmemNamespace namespaceConf =
     (case map_of namespaceConf ''storage-engine'' of
        None \<Rightarrow> Inr False
      | Some storage \<Rightarrow>
          bnd (asMap storage) (\<lambda>storageConf.
            Inr (map_of storageConf ''type'' = Some (VStr ''device'')
               \<or> map_of storageConf ''type'' = Some (VStr ''pmem''))))"

definition isShMemIndexTypeNamespace :: "conf \<Rightarrow> error + bool" where
  "isShMemIndexTypeNamespace namespaceConf =
     (case map_of namespaceConf ''index-type'' of
        None \<Rightarrow> Inr True
      | Some storage \<Rightarrow>
          bnd (asMap storage) (\<lambda>storageConf.
            Inr (map_of storageConf ''type'' = Some (VStr ''shmem''))))"

section \<open>validateSCNamespaces\<close>

text \<open>
  The inner loop over one rack's namespace list: \<open>tmp\<close> is the set
  \<^verbatim>\<open>tmpSCNamespaceSet\<close> built so far.
\<close>

fun scNamespacesOfRack :: "val list \<Rightarrow> string set \<Rightarrow> error + string set" where
  "scNamespacesOfRack [] tmp = Inr tmp"
| "scNamespacesOfRack (nsConfInterface # rest) tmp =
     bnd (asMap nsConfInterface) (\<lambda>nsConf.
     bnd (IsNSSCEnabled nsConf) (\<lambda>isEnabled.
       if isEnabled then
         bnd (asString (getKey nsConf ''name'')) (\<lambda>nm.
         bnd (isInMemoryNamespace nsConf) (\<lambda>mem.
           if mem then
             Inl (Reject ''in-memory SC namespace is not supported, namespace %v''
                    [AVal (getKey nsConf ''name'')])
           else scNamespacesOfRack rest (insert nm tmp)))
       else scNamespacesOfRack rest tmp))"

text \<open>
  The outer loop: \<open>idx\<close> is the rack index and \<open>scNamespaceSet\<close> the baseline taken
  from rack 0.
\<close>

fun scRacksLoop :: "nat \<Rightarrow> string set \<Rightarrow> Rack list \<Rightarrow> result" where
  "scRacksLoop idx scNamespaceSet [] = Inr ()"
| "scRacksLoop idx scNamespaceSet (rack # rest) =
     bnd (asList (getKey (valueOf (AerospikeConfig rack)) ''namespaces'')) (\<lambda>nsList.
     bnd (scNamespacesOfRack nsList {}) (\<lambda>tmpSCNamespaceSet.
       if idx = 0 then scRacksLoop (Suc idx) tmpSCNamespaceSet rest
       else if scNamespaceSet \<noteq> tmpSCNamespaceSet then
         Inl (Reject (''SC namespaces list is different for different racks. '' @
                      ''All racks should have same SC namespaces'') [])
       else scRacksLoop (Suc idx) scNamespaceSet rest))"

definition validateSCNamespaces :: "AerospikeCluster \<Rightarrow> result" where
  "validateSCNamespaces c = scRacksLoop 0 {} (Racks (SpecRackConfig (Spec c)))"

section \<open>validateMaxUnavailable\<close>

text \<open>
  The scan of one rack's namespaces; \<open>safeMaxUnavailable\<close> is the running bound.
\<close>

fun maxUnavailableNsLoop :: "val list \<Rightarrow> int \<Rightarrow> error + int" where
  "maxUnavailableNsLoop [] safeMaxUnavailable = Inr safeMaxUnavailable"
| "maxUnavailableNsLoop (nsInterface # rest) safeMaxUnavailable =
     bnd (asMap nsInterface) (\<lambda>ns.
       case map_of ns ''replication-factor'' of
         None \<Rightarrow> maxUnavailableNsLoop rest 2
       | Some rfInterface \<Rightarrow>
           bnd (wrapErr ''namespace replication-factor %v'' [] (GetIntType rfInterface)) (\<lambda>rf.
             if rf = 1 then maxUnavailableNsLoop rest safeMaxUnavailable
             else if rf < safeMaxUnavailable then maxUnavailableNsLoop rest rf
             else maxUnavailableNsLoop rest safeMaxUnavailable))"

fun maxUnavailableRacksLoop :: "Rack list \<Rightarrow> int \<Rightarrow> error + int" where
  "maxUnavailableRacksLoop [] safeMaxUnavailable = Inr safeMaxUnavailable"
| "maxUnavailableRacksLoop (rack # rest) safeMaxUnavailable =
     bnd (asList (getKey (valueOf (AerospikeConfig rack)) ''namespaces'')) (\<lambda>nsList.
     bnd (maxUnavailableNsLoop nsList safeMaxUnavailable) (\<lambda>s.
       maxUnavailableRacksLoop rest s))"

definition pdbWarning :: string where
  "pdbWarning = ''Spec field 'spec.maxUnavailable' will be omitted from Custom Resource (CR) '' @
                ''because 'spec.disablePDB' is true.''"

text \<open>The function returns the warnings and the error.\<close>

definition validateMaxUnavailable :: "env \<Rightarrow> AerospikeCluster \<Rightarrow> string list \<times> result" where
  "validateMaxUnavailable E c =
     (if GetBool (DisablePDB (Spec c)) then ([pdbWarning], Inr ())
      else
        ([],
         bnd (validateIntOrStringField E (MaxUnavailable (Spec c)) ''spec.maxUnavailable'') (\<lambda>_.
           if Size (Spec c) = 1 then Inr ()
           else
             bnd (maxUnavailableRacksLoop (Racks (SpecRackConfig (Spec c))) (Size (Spec c)))
               (\<lambda>safeMaxUnavailable.
                 case MaxUnavailable (Spec c) of
                   None \<Rightarrow> Inl (Panic ''nil pointer dereference'')
                 | Some mu \<Rightarrow>
                     if IntValue E mu \<ge> safeMaxUnavailable then
                       Inl (Reject (''maxUnavailable %s cannot be greater than or equal to %v as it '' @
                                    ''may result in data loss. Set it to a lower value'')
                              [AIntStr mu, AInt safeMaxUnavailable])
                     else Inr ()))))"

section \<open>validateBatchSize\<close>

record nsConf =
  noOfRacksForNamespaces :: int
  replicationFactor :: int
  scEnabled :: bool

text \<open>
  \<open>getNsConfForNamespaces\<close> builds a map from namespace name to its summary; the map is
  kept as an association list, a name being overwritten in place.  The error of
  \<open>getNamespaceReplicationFactor\<close> is dropped by the source, the factor then being 0.
\<close>

fun nsConfNsLoop :: "val list \<Rightarrow> (string \<times> nsConf) list \<Rightarrow> error + (string \<times> nsConf) list" where
  "nsConfNsLoop [] nsConfs = Inr nsConfs"
| "nsConfNsLoop (nsInterface # rest) nsConfs =
     bnd (asMap nsInterface) (\<lambda>ns.
     bnd (asString (getKey ns ''name'')) (\<lambda>nsName.
       let n = (case map_of nsConfs nsName of
                  None \<Rightarrow> 1
                | Some old \<Rightarrow> noOfRacksForNamespaces old + 1);
           rf = (case getNamespaceReplicationFactor ns of Inl _ \<Rightarrow> 0 | Inr r \<Rightarrow> r)
       in bnd (IsNSSCEnabled ns) (\<lambda>sc.
            nsConfNsLoop rest
              (AList.update nsName
                 \<lparr>noOfRacksForNamespaces = n, replicationFactor = rf, scEnabled = sc\<rparr>
                 nsConfs))))"

fun nsConfRacksLoop :: "Rack list \<Rightarrow> (string \<times> nsConf) list \<Rightarrow> error + (string \<times> nsConf) list" where
  "nsConfRacksLoop [] nsConfs = Inr nsConfs"
| "nsConfRacksLoop (rack # rest) nsConfs =
     bnd (asList (getKey (valueOf (AerospikeConfig rack)) ''namespaces'')) (\<lambda>nsList.
     bnd (nsConfNsLoop nsList nsConfs) (\<lambda>nsConfs'.
       nsConfRacksLoop rest nsConfs'))"

definition getNsConfForNamespaces :: "RackConfig \<Rightarrow> error + (string \<times> nsConf) list" where
  "getNsConfForNamespaces rackConfig = nsConfRacksLoop (Racks rackConfig) []"

text \<open>
  The loop of \<open>validateRacksForBatchSize\<close> over the summaries.  Go ranges over a map in
  no fixed order; the model takes the list order, which decides only which of several
  failing namespaces the message names.
\<close>

fun batchNsLoop :: "string \<Rightarrow> bool \<Rightarrow> string list \<Rightarrow> (string \<times> nsConf) list \<Rightarrow> result" where
  "batchNsLoop fieldPath rollingUpdateBatch namespaces [] = Inr ()"
| "batchNsLoop fieldPath rollingUpdateBatch namespaces ((ns, nsc) # rest) =
     (if \<not> isNameExist namespaces ns then
        Inl (Reject ''can not use %s when there is any non-rack enabled namespace %s''
               [AStr fieldPath, AStr ns])
      else if noOfRacksForNamespaces nsc \<le> 1 then
        Inl (Reject ''can not use %s when namespace `%s` is configured in only one rack''
               [AStr fieldPath, AStr ns])
      else if replicationFactor nsc \<le> 1 then
        Inl (Reject ''can not use %s when namespace `%s` is configured with replication-factor 1''
               [AStr fieldPath, AStr ns])
      else if \<not> rollingUpdateBatch \<and> scEnabled nsc then
        Inl (Reject ''can not use %s when namespace `%s` is configured with Strong Consistency''
               [AStr fieldPath, AStr ns])
      else batchNsLoop fieldPath rollingUpdateBatch namespaces rest)"

definition validateRacksForBatchSize :: "string \<Rightarrow> bool \<Rightarrow> RackConfig \<Rightarrow> result" where
  "validateRacksForBatchSize fieldPath rollingUpdateBatch rackConfig =
     (if length (Racks rackConfig) < 2 then
        Inl (Reject ''can not use %s when number of racks is less than two'' [AStr fieldPath])
      else
        bnd (getNsConfForNamespaces rackConfig) (\<lambda>nsConfsNamespaces.
          batchNsLoop fieldPath rollingUpdateBatch (Namespaces rackConfig) nsConfsNamespaces))"

definition validateBatchSize :: "env \<Rightarrow> AerospikeCluster \<Rightarrow> IntOrString option \<Rightarrow> bool \<Rightarrow> result" where
  "validateBatchSize E c batchSize rollingUpdateBatch =
     (case batchSize of
        None \<Rightarrow> Inr ()
      | Some bs \<Rightarrow>
          (let fieldPath = (if rollingUpdateBatch then ''spec.rackConfig.rollingUpdateBatchSize''
                            else ''spec.rackConfig.scaleDownBatchSize'')
           in bnd (validateIntOrStringField E batchSize fieldPath) (\<lambda>_.
              bnd (validateRacksForBatchSize fieldPath rollingUpdateBatch (SpecRackConfig (Spec c)))
                (\<lambda>_.
                if StatusAerospikeConfig (Status c) \<noteq> None then
                  wrapErr ''status invalid for %s: update, %v'' [AStr fieldPath]
                    (validateRacksForBatchSize fieldPath rollingUpdateBatch
                       (StatusRackConfig (Status c)))
                else Inr ()))))"

section \<open>Security on update\<close>

definition validateSecurityContext :: "env \<Rightarrow> AerospikeConfigSpec \<Rightarrow> AerospikeConfigSpec \<Rightarrow> result" where
  "validateSecurityContext E newSpec oldSpec =
     bnd (wrapErr ''failed to validate Security context of old aerospike conf: %w'' []
            (IsSecurityEnabled E oldSpec)) (\<lambda>ovflag.
     bnd (wrapErr ''failed to validate Security context of new aerospike conf: %w'' []
            (IsSecurityEnabled E newSpec)) (\<lambda>ivflag.
       if \<not> ivflag \<and> ovflag then
         Inl (Reject ''cannot disable cluster security in running cluster'' [])
       else Inr ()))"

definition validateSecurityConfigUpdate ::
  "env \<Rightarrow> AerospikeConfigSpec \<Rightarrow> AerospikeConfigSpec \<Rightarrow> AerospikeConfigSpec option \<Rightarrow> result" where
  "validateSecurityConfigUpdate E newSpec oldSpec currentStatus =
     bnd (case currentStatus of
            None \<Rightarrow> Inr ()
          | Some st \<Rightarrow>
              bnd (IsSecurityEnabled E st) (\<lambda>currentSecurityEnabled.
              bnd (IsSecurityEnabled E newSpec) (\<lambda>desiredSecurityEnabled.
                if currentSecurityEnabled \<and> \<not> desiredSecurityEnabled then
                  Inl (Reject ''cannot disable cluster security in running cluster'' [])
                else Inr ()))) (\<lambda>_.
       validateSecurityContext E newSpec oldSpec)"

section \<open>TLS on update\<close>

definition networkConnectionTypes :: "string list" where
  "networkConnectionTypes = [''service'', ''heartbeat'', ''fabric'']"

text \<open>The names of the TLS entries that the connection types of a network section use.\<close>

fun usedTLSLoop :: "conf \<Rightarrow> string list \<Rightarrow> string set \<Rightarrow> error + string set" where
  "usedTLSLoop network [] used = Inr used"
| "usedTLSLoop network (connectionType # rest) used =
     (case map_of network connectionType of
        None \<Rightarrow> usedTLSLoop network rest used
      | Some connectionConfig \<Rightarrow>
          bnd (asMap connectionConfig) (\<lambda>connectionConfigMap.
            case map_of connectionConfigMap ''tls-name'' of
              None \<Rightarrow> usedTLSLoop network rest used
            | Some tlsName \<Rightarrow>
                bnd (asString tlsName) (\<lambda>s. usedTLSLoop network rest (insert s used))))"

text \<open>
  The loop over the old TLS entries fills \<^verbatim>\<open>oldTLSCAFileMap\<close> and
  \<^verbatim>\<open>oldTLSCAPathMap\<close>.
\<close>

fun oldTLSLoop ::
  "val list \<Rightarrow> string set \<Rightarrow> (string \<rightharpoonup> string) \<times> (string \<rightharpoonup> string) \<Rightarrow>
   error + ((string \<rightharpoonup> string) \<times> (string \<rightharpoonup> string))" where
  "oldTLSLoop [] oldUsedTLS caMaps = Inr caMaps"
| "oldTLSLoop (tls # rest) oldUsedTLS caMaps =
     bnd (asMap tls) (\<lambda>tlsMap.
     bnd (asString (getKey tlsMap ''name'')) (\<lambda>nm.
       if nm \<notin> oldUsedTLS then oldTLSLoop rest oldUsedTLS caMaps
       else
         bnd (case map_of tlsMap ''ca-file'' of
                None \<Rightarrow> Inr (fst caMaps)
              | Some oldCAFile \<Rightarrow> bnd (asString oldCAFile) (\<lambda>f. Inr ((fst caMaps)(nm \<mapsto> f))))
           (\<lambda>fileMap.
         bnd (case map_of tlsMap ''ca-path'' of
                None \<Rightarrow> Inr (snd caMaps)
              | Some oldCAPath \<Rightarrow> bnd (asString oldCAPath) (\<lambda>p. Inr ((snd caMaps)(nm \<mapsto> p))))
           (\<lambda>pathMap.
           oldTLSLoop rest oldUsedTLS (fileMap, pathMap)))))"

fun newTLSLoop ::
  "val list \<Rightarrow> string set \<Rightarrow> (string \<rightharpoonup> string) \<Rightarrow> (string \<rightharpoonup> string) \<Rightarrow> result" where
  "newTLSLoop [] newUsedTLS oldTLSCAFileMap oldTLSCAPathMap = Inr ()"
| "newTLSLoop (tls # rest) newUsedTLS oldTLSCAFileMap oldTLSCAPathMap =
     bnd (asMap tls) (\<lambda>tlsMap.
     bnd (asString (getKey tlsMap ''name'')) (\<lambda>nm.
       if nm \<notin> newUsedTLS then newTLSLoop rest newUsedTLS oldTLSCAFileMap oldTLSCAPathMap
       else
         (let newCAPathOK = (map_of tlsMap ''ca-path'' \<noteq> None);
              newCAFileOK = (map_of tlsMap ''ca-file'' \<noteq> None);
              oldCAFileOK = (oldTLSCAFileMap nm \<noteq> None);
              oldCAPathOK = (oldTLSCAPathMap nm \<noteq> None)
          in if (oldCAFileOK \<or> oldCAPathOK) \<and> \<not> (newCAPathOK \<or> newCAFileOK) then
               Inl (Reject ''cannot remove used `ca-file` or `ca-path` from tls'' [])
             else if oldCAFileOK \<and> newCAFileOK then
               bnd (asString (getKey tlsMap ''ca-file'')) (\<lambda>newCAFile.
                 if Some newCAFile \<noteq> oldTLSCAFileMap nm then
                   Inl (Reject ''cannot change ca-file of used tls'' [])
                 else newTLSLoop rest newUsedTLS oldTLSCAFileMap oldTLSCAPathMap)
             else newTLSLoop rest newUsedTLS oldTLSCAFileMap oldTLSCAPathMap)))"

definition validateTLSUpdate :: "conf \<Rightarrow> conf \<Rightarrow> result" where
  "validateTLSUpdate oldConf newConf =
     bnd (asMap (getKey oldConf ''network'')) (\<lambda>oldNetwork.
     bnd (asMap (getKey newConf ''network'')) (\<lambda>newNetwork.
       case (map_of oldNetwork ''tls'', map_of newNetwork ''tls'') of
         (Some oldTLS, Some newTLS) \<Rightarrow>
           if oldTLS \<noteq> newTLS then
             bnd (usedTLSLoop newNetwork networkConnectionTypes {}) (\<lambda>newUsedTLS.
             bnd (usedTLSLoop oldNetwork networkConnectionTypes {}) (\<lambda>oldUsedTLS.
             bnd (asList oldTLS) (\<lambda>oldList.
             bnd (oldTLSLoop oldList oldUsedTLS (Map.empty, Map.empty)) (\<lambda>caMaps.
             bnd (asList newTLS) (\<lambda>newList.
               newTLSLoop newList newUsedTLS (fst caMaps) (snd caMaps))))))
           else Inr ()
       | _ \<Rightarrow> Inr ()))"

section \<open>Network connections on update\<close>

definition validateNetworkPortUpdate :: "conf \<Rightarrow> conf \<Rightarrow> string \<Rightarrow> result" where
  "validateNetworkPortUpdate oldConnectionConfig newConnectionConfig port =
     (let oldPort = map_of oldConnectionConfig port;
          newPort = map_of newConnectionConfig port;
          tlsPort = ''tls-'' @ port;
          oldTLSPort = map_of oldConnectionConfig tlsPort;
          newTLSPort = map_of newConnectionConfig tlsPort
      in if oldPort \<noteq> None \<and> newPort \<noteq> None \<and> oldPort \<noteq> newPort then
           Inl (Reject ''cannot modify %s number: old value %v, new value %v''
                  [AStr port, AVal (getKey oldConnectionConfig port),
                   AVal (getKey newConnectionConfig port)])
         else if oldTLSPort \<noteq> None \<and> newTLSPort \<noteq> None \<and> oldTLSPort \<noteq> newTLSPort then
           Inl (Reject ''cannot modify %s number: old value %v, new value %v''
                  [AStr tlsPort, AVal (getKey oldConnectionConfig tlsPort),
                   AVal (getKey newConnectionConfig tlsPort)])
         else if ((newTLSPort = None \<and> oldTLSPort \<noteq> None) \<or> (newPort = None \<and> oldPort \<noteq> None))
                 \<and> \<not> (oldPort \<noteq> None \<and> oldTLSPort \<noteq> None) then
           Inl (Reject (''cannot remove tls or non-tls configurations unless both '' @
                        ''configurations have been set initially'') [])
         else Inr ())"

definition networkPorts :: "string list" where
  "networkPorts = [''port'', ''access-port'', ''alternate-access-port'']"

fun networkPortsLoop :: "conf \<Rightarrow> conf \<Rightarrow> string list \<Rightarrow> result" where
  "networkPortsLoop oldConnectionConfig newConnectionConfig [] = Inr ()"
| "networkPortsLoop oldConnectionConfig newConnectionConfig (port # rest) =
     bnd (validateNetworkPortUpdate oldConnectionConfig newConnectionConfig port) (\<lambda>_.
       networkPortsLoop oldConnectionConfig newConnectionConfig rest)"

definition validateNetworkConnectionUpdate :: "conf \<Rightarrow> conf \<Rightarrow> string \<Rightarrow> result" where
  "validateNetworkConnectionUpdate newConf oldConf connectionType =
     bnd (asMap (getKey oldConf ''network'')) (\<lambda>oldNetwork.
     bnd (asMap (getKey oldNetwork connectionType)) (\<lambda>oldConnectionConfig.
     bnd (asMap (getKey newConf ''network'')) (\<lambda>newNetwork.
     bnd (asMap (getKey newNetwork connectionType)) (\<lambda>newConnectionConfig.
       let oldTLSName = map_of oldConnectionConfig ''tls-name'';
           newTLSName = map_of newConnectionConfig ''tls-name''
       in if oldTLSName \<noteq> None \<and> newTLSName \<noteq> None \<and> oldTLSName \<noteq> newTLSName then
            Inl (Reject ''cannot modify tls name'' [])
          else networkPortsLoop oldConnectionConfig newConnectionConfig networkPorts))))"

fun networkConnectionsLoop :: "conf \<Rightarrow> conf \<Rightarrow> string list \<Rightarrow> result" where
  "networkConnectionsLoop newConf oldConf [] = Inr ()"
| "networkConnectionsLoop newConf oldConf (connectionType # rest) =
     bnd (validateNetworkConnectionUpdate newConf oldConf connectionType) (\<lambda>_.
       networkConnectionsLoop newConf oldConf rest)"

section \<open>Network policy on update\<close>


section \<open>Namespaces on update\<close>

text \<open>
  One list of devices or files of a namespace, checked against the map from path to
  namespace built so far; \<open>fmt\<close> is the message for a path that two namespaces use.
\<close>

fun storagePathsLoop ::
  "string \<Rightarrow> string \<Rightarrow> val list \<Rightarrow> (string \<rightharpoonup> string) \<Rightarrow> error + (string \<rightharpoonup> string)" where
  "storagePathsLoop fmt namespace [] pathList = Inr pathList"
| "storagePathsLoop fmt namespace (d # rest) pathList =
     bnd (asString d) (\<lambda>device.
       case pathList device of
         Some previousNamespace \<Rightarrow>
           Inl (Reject fmt [AStr device, AStr previousNamespace, AStr namespace])
       | None \<Rightarrow> storagePathsLoop fmt namespace rest (pathList(device \<mapsto> namespace)))"

fun storageEngineDeviceListLoop ::
  "val list \<Rightarrow> (string \<rightharpoonup> string) \<times> (string \<rightharpoonup> string) \<Rightarrow>
   error + ((string \<rightharpoonup> string) \<times> (string \<rightharpoonup> string))" where
  "storageEngineDeviceListLoop [] tables = Inr tables"
| "storageEngineDeviceListLoop (nsConfInterface # rest) tables =
     bnd (asMap nsConfInterface) (\<lambda>nsConf.
     bnd (asString (getKey nsConf ''name'')) (\<lambda>namespace.
     bnd (asMap (getKey nsConf ''storage-engine'')) (\<lambda>storage.
     bnd (case map_of storage ''devices'' of
            None \<Rightarrow> Inr (fst tables)
          | Some devices \<Rightarrow>
              bnd (asList devices) (\<lambda>ds.
                storagePathsLoop
                  ''device %s is already being referenced in multiple namespaces (%s, %s)''
                  namespace ds (fst tables))) (\<lambda>deviceList.
     bnd (case map_of storage ''files'' of
            None \<Rightarrow> Inr (snd tables)
          | Some files \<Rightarrow>
              bnd (asList files) (\<lambda>fs.
                storagePathsLoop
                  ''file %s is already being referenced in multiple namespaces (%s, %s)''
                  namespace fs (snd tables))) (\<lambda>fileList.
       storageEngineDeviceListLoop rest (deviceList, fileList))))))"

definition validateStorageEngineDeviceList ::
  "val list \<Rightarrow> error + ((string \<rightharpoonup> string) \<times> (string \<rightharpoonup> string))" where
  "validateStorageEngineDeviceList nsConfList =
     storageEngineDeviceListLoop nsConfList (Map.empty, Map.empty)"

text \<open>Reading a Go map of strings at an absent key gives the empty string.\<close>

definition strAt :: "(string \<rightharpoonup> string) \<Rightarrow> string \<Rightarrow> string" where
  "strAt m k = (case m k of None \<Rightarrow> [] | Some v \<Rightarrow> v)"

fun reusedPathsLoop ::
  "string \<Rightarrow> string \<Rightarrow> val list \<Rightarrow> (string \<rightharpoonup> string) \<Rightarrow> result" where
  "reusedPathsLoop fmt namespace [] pathList = Inr ()"
| "reusedPathsLoop fmt namespace (d # rest) pathList =
     bnd (asString d) (\<lambda>device.
       if strAt pathList device \<noteq> [] \<and> strAt pathList device \<noteq> namespace then
         Inl (Reject fmt [AStr device, AStr (strAt pathList device), AStr namespace])
       else reusedPathsLoop fmt namespace rest pathList)"

fun statusNsLoop :: "val list \<Rightarrow> (string \<rightharpoonup> string) \<Rightarrow> (string \<rightharpoonup> string) \<Rightarrow> result" where
  "statusNsLoop [] deviceList fileList = Inr ()"
| "statusNsLoop (statusNsConfInterface # rest) deviceList fileList =
     bnd (asMap statusNsConfInterface) (\<lambda>nsConf.
     bnd (asString (getKey nsConf ''name'')) (\<lambda>namespace.
     bnd (asMap (getKey nsConf ''storage-engine'')) (\<lambda>storage.
     bnd (case map_of storage ''devices'' of
            None \<Rightarrow> Inr ()
          | Some devices \<Rightarrow>
              bnd (asList devices) (\<lambda>ds.
                reusedPathsLoop
                  (''device %s can not be removed and re-used in a different namespace at the same time. '' @
                   ''It has to be removed first. currentNamespace `%s`, oldNamespace `%s`'')
                  namespace ds deviceList)) (\<lambda>_.
     bnd (case map_of storage ''files'' of
            None \<Rightarrow> Inr ()
          | Some files \<Rightarrow>
              bnd (asList files) (\<lambda>fs.
                reusedPathsLoop
                  (''file %s can not be removed and re-used in a different namespace at the same time. '' @
                   ''It has to be removed first. currentNamespace `%s`, oldNamespace `%s`'')
                  namespace fs fileList)) (\<lambda>_.
       statusNsLoop rest deviceList fileList)))))"

definition validateStorageEngineDeviceListUpdate :: "val list \<Rightarrow> val list \<Rightarrow> result" where
  "validateStorageEngineDeviceListUpdate nsConfList statusNsConfList =
     bnd (validateStorageEngineDeviceList nsConfList) (\<lambda>tables.
       statusNsLoop statusNsConfList (fst tables) (snd tables))"

text \<open>
  The two nested loops of \<open>validateNsConfUpdate\<close>: every new namespace against every
  old one.
\<close>

fun nsConfOldLoop :: "conf \<Rightarrow> val list \<Rightarrow> result" where
  "nsConfOldLoop singleConf [] = Inr ()"
| "nsConfOldLoop singleConf (oldSingleConfInterface # rest) =
     (case oldSingleConfInterface of
        VMap oldSingleConf \<Rightarrow>
          bnd (ifaceEq (getKey singleConf ''name'') (getKey oldSingleConf ''name'')) (\<lambda>same.
            if same \<and> isValueUpdated oldSingleConf singleConf ''replication-factor'' then
              Inl (Reject ''replication-factor cannot be updated. old nsconf %v, new nsconf %v''
                     [AVal (VMap oldSingleConf), AVal (VMap singleConf)])
            else if same \<and> isValueUpdated oldSingleConf singleConf ''strong-consistency'' then
              Inl (Reject ''strong-consistency cannot be updated. old nsconf %v, new nsconf %v''
                     [AVal (VMap oldSingleConf), AVal (VMap singleConf)])
            else nsConfOldLoop singleConf rest)
      | _ \<Rightarrow> Inl (Reject ''namespace conf not in valid format %v'' [AVal oldSingleConfInterface]))"

fun nsConfNewLoop :: "val list \<Rightarrow> val list \<Rightarrow> result" where
  "nsConfNewLoop [] oldNsConfList = Inr ()"
| "nsConfNewLoop (singleConfInterface # rest) oldNsConfList =
     (case singleConfInterface of
        VMap singleConf \<Rightarrow>
          bnd (nsConfOldLoop singleConf oldNsConfList) (\<lambda>_. nsConfNewLoop rest oldNsConfList)
      | _ \<Rightarrow> Inl (Reject ''namespace conf not in valid format %v'' [AVal singleConfInterface]))"

definition validateNsConfUpdate ::
  "AerospikeConfigSpec \<Rightarrow> AerospikeConfigSpec \<Rightarrow> AerospikeConfigSpec option \<Rightarrow> result" where
  "validateNsConfUpdate newConfSpec oldConfSpec currentStatus =
     bnd (case currentStatus of
            None \<Rightarrow> Inr []
          | Some st \<Rightarrow>
              if length (valueOf st) \<noteq> 0 then asList (getKey (valueOf st) ''namespaces'')
              else Inr []) (\<lambda>statusNsConfList.
     bnd (asList (getKey (valueOf newConfSpec) ''namespaces'')) (\<lambda>newNsConfList.
     bnd (asList (getKey (valueOf oldConfSpec) ''namespaces'')) (\<lambda>oldNsConfList.
     bnd (nsConfNewLoop newNsConfList oldNsConfList) (\<lambda>_.
       validateStorageEngineDeviceListUpdate newNsConfList statusNsConfList))))"

section \<open>validateAerospikeConfigUpdate\<close>

definition validateAerospikeConfigUpdate ::
  "env \<Rightarrow> AerospikeConfigSpec \<Rightarrow> AerospikeConfigSpec \<Rightarrow> AerospikeConfigSpec option \<Rightarrow> result" where
  "validateAerospikeConfigUpdate E incomingSpec outgoingSpec currentStatus =
     bnd (validateSecurityConfigUpdate E incomingSpec outgoingSpec currentStatus) (\<lambda>_.
     bnd (validateTLSUpdate (valueOf outgoingSpec) (valueOf incomingSpec)) (\<lambda>_.
     bnd (networkConnectionsLoop (valueOf incomingSpec) (valueOf outgoingSpec)
            networkConnectionTypes) (\<lambda>_.
       validateNsConfUpdate incomingSpec outgoingSpec currentStatus)))"

section \<open>Storage and racks on update\<close>








section \<open>Structural validation of namespaces\<close>

definition validateNamespaceReplicationFactor :: "conf \<Rightarrow> int \<Rightarrow> result" where
  "validateNamespaceReplicationFactor nsConf clSize =
     bnd (getNamespaceReplicationFactor nsConf) (\<lambda>rf.
     bnd (IsNSSCEnabled nsConf) (\<lambda>sc.
       if sc \<and> clSize < rf then
         Inl (Reject (''strong-consistency namespace replication-factor %v cannot be more '' @
                      ''than cluster size %d'') [AInt rf, AInt clSize])
       else Inr ()))"

definition isMRTFieldSet :: "conf \<Rightarrow> bool" where
  "isMRTFieldSet nsConf =
     (map_of nsConf ''mrt-duration'' \<noteq> None \<or> map_of nsConf ''disable-mrt-writes'' \<noteq> None)"

definition validateMRTFields :: "conf \<Rightarrow> result" where
  "validateMRTFields nsConf =
     (let mrtField = isMRTFieldSet nsConf
      in bnd (IsNSSCEnabled nsConf) (\<lambda>sc.
           if \<not> sc \<and> mrtField then
             Inl (Reject ''MRT fields are not allowed in non-SC namespace %v'' [AVal (VMap nsConf)])
           else Inr ()))"

definition isPathParentOrSame :: "env \<Rightarrow> string \<Rightarrow> string \<Rightarrow> bool" where
  "isPathParentOrSame E dir1 dir2 =
     (case filepathRel E dir1 dir2 of
        Some relPath \<Rightarrow> \<not> HasPrefix relPath ''..''
      | None \<Rightarrow> False)"

definition isFileStorageConfiguredForDir :: "env \<Rightarrow> string list \<Rightarrow> string \<Rightarrow> bool" where
  "isFileStorageConfiguredForDir E fileStorageList dir =
     list_ex (\<lambda>storageMount. isPathParentOrSame E storageMount dir) fileStorageList"

text \<open>The tokens of one device entry against the block device paths of the storage.\<close>

fun deviceTokensLoop :: "AerospikeStorageSpec \<Rightarrow> string list \<Rightarrow> string list \<Rightarrow> result" where
  "deviceTokensLoop storage blockStorageDeviceList [] = Inr ()"
| "deviceTokensLoop storage blockStorageDeviceList (dev # rest) =
     (if \<not> ContainsString blockStorageDeviceList dev then
        Inl (Reject ''namespace storage device related devicePath %v not found in Storage config %v''
               [AStr dev, AStorage storage])
      else deviceTokensLoop storage blockStorageDeviceList rest)"

fun devicesLoop :: "env \<Rightarrow> AerospikeStorageSpec \<Rightarrow> string list \<Rightarrow> val list \<Rightarrow> result" where
  "devicesLoop E storage blockStorageDeviceList [] = Inr ()"
| "devicesLoop E storage blockStorageDeviceList (device # rest) =
     (case device of
        VStr s \<Rightarrow>
          (let device' = TrimSpace E s
           in if length (Fields E device') > 2 then
                Inl (Reject (''invalid device name %v. Max 2 device can be mentioned in single '' @
                             ''line (Shadow device config)'') [AVal (VStr device')])
              else
                bnd (deviceTokensLoop storage blockStorageDeviceList (Fields E device')) (\<lambda>_.
                  devicesLoop E storage blockStorageDeviceList rest))
      | _ \<Rightarrow> Inl (Reject ''namespace storage device not valid string %v'' [AVal device]))"

fun fileTokensLoop :: "env \<Rightarrow> AerospikeStorageSpec \<Rightarrow> string list \<Rightarrow> string list \<Rightarrow> result" where
  "fileTokensLoop E storage fileStorageList [] = Inr ()"
| "fileTokensLoop E storage fileStorageList (f # rest) =
     (let dirPath = filepathDir E f
      in if \<not> isFileStorageConfiguredForDir E fileStorageList dirPath then
           Inl (Reject ''namespace storage file related mountPath %v not found in storage config %v''
                  [AStr dirPath, AStorage storage])
         else fileTokensLoop E storage fileStorageList rest)"

fun filesLoop :: "env \<Rightarrow> AerospikeStorageSpec \<Rightarrow> string list \<Rightarrow> val list \<Rightarrow> result" where
  "filesLoop E storage fileStorageList [] = Inr ()"
| "filesLoop E storage fileStorageList (file # rest) =
     (case file of
        VStr s \<Rightarrow>
          (let file' = TrimSpace E s
           in if length (Fields E file') > 2 then
                Inl (Reject (''invalid file name %v. Max 2 file can be mentioned in single '' @
                             ''line (Shadow file config)'') [AVal (VStr file')])
              else
                bnd (fileTokensLoop E storage fileStorageList (Fields E file')) (\<lambda>_.
                  filesLoop E storage fileStorageList rest))
      | _ \<Rightarrow> Inl (Reject ''namespace storage file not valid string %v'' [AVal file]))"

definition namespaceDevicesCheck ::
  "env \<Rightarrow> AerospikeStorageSpec \<Rightarrow> string list \<Rightarrow> val \<Rightarrow> conf \<Rightarrow> result" where
  "namespaceDevicesCheck E storage blockStorageDeviceList nsStorage storageMap =
     (case map_of storageMap ''devices'' of
        None \<Rightarrow> Inr ()
      | Some devices \<Rightarrow>
          (case devices of
             VNil \<Rightarrow> Inl (Reject ''namespace storage devices cannot be nil %v'' [AVal nsStorage])
           | VList ds \<Rightarrow>
               if length ds = 0 then
                 Inl (Reject ''no devices for namespace storage %v'' [AVal nsStorage])
               else devicesLoop E storage blockStorageDeviceList ds
           | _ \<Rightarrow> Inl (Reject ''namespace storage device format not valid %v'' [AVal nsStorage])))"

definition namespaceFilesCheck ::
  "env \<Rightarrow> AerospikeStorageSpec \<Rightarrow> string list \<Rightarrow> val \<Rightarrow> conf \<Rightarrow> result" where
  "namespaceFilesCheck E storage fileStorageList nsStorage storageMap =
     (case map_of storageMap ''files'' of
        None \<Rightarrow> Inr ()
      | Some files \<Rightarrow>
          (case files of
             VNil \<Rightarrow> Inl (Reject ''namespace storage files cannot be nil %v'' [AVal nsStorage])
           | VList fs \<Rightarrow>
               if length fs = 0 then
                 Inl (Reject ''no files for namespace storage %v'' [AVal nsStorage])
               else filesLoop E storage fileStorageList fs
           | _ \<Rightarrow> Inl (Reject ''namespace storage files format not valid %v'' [AVal nsStorage])))"

text \<open>
  The body of the first loop of \<open>validateNamespaceConfig\<close> for one namespace; the
  \<^verbatim>\<open>continue\<close> of an in-memory namespace ends the body with success.
\<close>

definition namespaceStorageCheck ::
  "env \<Rightarrow> AerospikeStorageSpec \<Rightarrow> string list \<Rightarrow> string list \<Rightarrow> int \<Rightarrow> val \<Rightarrow> result" where
  "namespaceStorageCheck E storage blockStorageDeviceList fileStorageList clSize nsConfInterface =
     (case nsConfInterface of
        VMap nsConf \<Rightarrow>
          bnd (validateNamespaceReplicationFactor nsConf clSize) (\<lambda>_.
          bnd (validateMRTFields nsConf) (\<lambda>_.
            case map_of nsConf ''storage-engine'' of
              None \<Rightarrow> Inl (Reject ''storage-engine config is required for namespace'' [])
            | Some nsStorage \<Rightarrow>
                if nsStorage = VNil then
                  Inl (Reject ''storage-engine cannot be nil for namespace %v'' [AVal (VMap nsConf)])
                else
                  bnd (isInMemoryNamespace nsConf) (\<lambda>mem.
                    if mem then Inr ()
                    else
                      bnd (isDeviceOrPmemNamespace nsConf) (\<lambda>dev.
                        if \<not> dev then
                          Inl (Reject ''storage-engine not supported for namespace %v''
                                 [AVal (VMap nsConf)])
                        else
                          bnd (asMap nsStorage) (\<lambda>storageMap.
                          bnd (namespaceDevicesCheck E storage blockStorageDeviceList nsStorage
                                 storageMap) (\<lambda>_.
                            namespaceFilesCheck E storage fileStorageList nsStorage storageMap))))))
      | _ \<Rightarrow> Inl (Reject ''namespace conf not in valid format %v'' [AVal nsConfInterface]))"

fun namespaceStorageLoop ::
  "env \<Rightarrow> AerospikeStorageSpec \<Rightarrow> string list \<Rightarrow> string list \<Rightarrow> int \<Rightarrow> val list \<Rightarrow> result" where
  "namespaceStorageLoop E storage blockStorageDeviceList fileStorageList clSize [] = Inr ()"
| "namespaceStorageLoop E storage blockStorageDeviceList fileStorageList clSize
     (nsConfInterface # rest) =
     bnd (namespaceStorageCheck E storage blockStorageDeviceList fileStorageList clSize
            nsConfInterface) (\<lambda>_.
       namespaceStorageLoop E storage blockStorageDeviceList fileStorageList clSize rest)"

fun mountsLoop :: "AerospikeStorageSpec \<Rightarrow> string list \<Rightarrow> val list \<Rightarrow> result" where
  "mountsLoop storage fileStorageList [] = Inr ()"
| "mountsLoop storage fileStorageList (mount # rest) =
     (case mount of
        VStr s \<Rightarrow>
          if \<not> ContainsString fileStorageList s then
            Inl (Reject ''namespace index-type mount %v not found in Storage config %v''
                   [AVal mount, AStorage storage])
          else mountsLoop storage fileStorageList rest
      | _ \<Rightarrow> Inl (Reject ''namespace index-type mount not valid string %v'' [AVal mount]))"

definition namespaceIndexCheck :: "AerospikeStorageSpec \<Rightarrow> string list \<Rightarrow> val \<Rightarrow> result" where
  "namespaceIndexCheck storage fileStorageList nsConfInterface =
     (case nsConfInterface of
        VMap nsConf \<Rightarrow>
          bnd (isShMemIndexTypeNamespace nsConf) (\<lambda>shmem.
            if shmem then Inr ()
            else
              case map_of nsConf ''index-type'' of
                None \<Rightarrow> Inr ()
              | Some nsIndexStorage \<Rightarrow>
                  bnd (asMap nsIndexStorage) (\<lambda>indexMap.
                    case map_of indexMap ''mounts'' of
                      None \<Rightarrow> Inr ()
                    | Some mounts \<Rightarrow>
                        (case mounts of
                           VNil \<Rightarrow>
                             Inl (Reject ''namespace index-type mounts cannot be nil %v''
                                    [AVal nsIndexStorage])
                         | VList ms \<Rightarrow>
                             if length ms = 0 then
                               Inl (Reject ''no mounts for namespace index-type %v''
                                      [AVal nsIndexStorage])
                             else mountsLoop storage fileStorageList ms
                         | _ \<Rightarrow>
                             Inl (Reject ''namespace index-type mounts format not valid %v''
                                    [AVal nsIndexStorage]))))
      | _ \<Rightarrow> Inl (Reject ''namespace conf not in valid format %v'' [AVal nsConfInterface]))"

fun namespaceIndexLoop :: "AerospikeStorageSpec \<Rightarrow> string list \<Rightarrow> val list \<Rightarrow> result" where
  "namespaceIndexLoop storage fileStorageList [] = Inr ()"
| "namespaceIndexLoop storage fileStorageList (nsConfInterface # rest) =
     bnd (namespaceIndexCheck storage fileStorageList nsConfInterface) (\<lambda>_.
       namespaceIndexLoop storage fileStorageList rest)"

definition validateNamespaceConfig ::
  "env \<Rightarrow> val list \<Rightarrow> AerospikeStorageSpec \<Rightarrow> int \<Rightarrow> result" where
  "validateNamespaceConfig E nsConfInterfaceList storage clSize =
     (if length nsConfInterfaceList = 0 then
        Inl (Reject ''aerospikeConfig.namespace list cannot be empty'' [])
      else
        bnd (getAerospikeStorageList E storage True) (\<lambda>storageLists.
        bnd (namespaceStorageLoop E storage (fst storageLists) (snd storageLists) clSize
               nsConfInterfaceList) (\<lambda>_.
        bnd (validateStorageEngineDeviceList nsConfInterfaceList) (\<lambda>_.
          namespaceIndexLoop storage (snd storageLists) nsConfInterfaceList))))"

section \<open>Structural validation of the network section\<close>

fun dnsNamesLoop :: "env \<Rightarrow> val \<Rightarrow> val list \<Rightarrow> error + string list" where
  "dnsNamesLoop E whole [] = Inr []"
| "dnsNamesLoop E whole (v # rest) =
     (case v of
        VStr dnsName \<Rightarrow>
          if \<not> IsDNSName E dnsName then
            Inl (Reject ''tls-authenticate-client contains invalid dns-name: %v'' [AStr dnsName])
          else bnd (dnsNamesLoop E whole rest) (\<lambda>names. Inr (dnsName # names))
      | _ \<Rightarrow> Inl (Reject ''tls-authenticate-client contains invalid type value: %v'' [AVal whole]))"

definition ValidateTLSAuthenticateClient :: "env \<Rightarrow> conf \<Rightarrow> error + string list" where
  "ValidateTLSAuthenticateClient E serviceConf =
     (case map_of serviceConf ''tls-authenticate-client'' of
        None \<Rightarrow> Inr []
      | Some config \<Rightarrow>
          (case config of
             VStr s \<Rightarrow>
               if s = ''any'' \<or> s = ''false'' then Inr []
               else Inl (Reject ''tls-authenticate-client contains invalid value: %s'' [AStr s])
           | VBool b \<Rightarrow>
               if \<not> b then Inr []
               else Inl (Reject ''tls-authenticate-client contains invalid value: %t'' [AVal config])
           | VList vs \<Rightarrow> dnsNamesLoop E config vs
           | _ \<Rightarrow>
               Inl (Reject ''tls-authenticate-client contains invalid type value: %v'' [AVal config])))"

definition readNamesFromLocalCertificate ::
  "env \<Rightarrow> AerospikeOperatorClientCertSpec option \<Rightarrow> error + string set" where
  "readNamesFromLocalCertificate E clientCertSpec =
     (case clientCertSpec of
        None \<Rightarrow> Inr {}
      | Some cs \<Rightarrow>
          (case CertPathInOperator cs of
             None \<Rightarrow> Inr {}
           | Some src \<Rightarrow>
               if ClientCertPath src = [] then Inr {}
               else
                 bnd (readCertificate E (ClientCertPath src)) (\<lambda>cert.
                   Inr ((if fst cert \<noteq> [] then {fst cert} else {}) \<union> set (snd cert)))))"

definition containsAnyName :: "string list \<Rightarrow> string set \<Rightarrow> bool" where
  "containsAnyName clientNames namesToFind = list_ex (\<lambda>clientName. clientName \<in> namesToFind) clientNames"

definition validateTLSClientNames ::
  "env \<Rightarrow> conf \<Rightarrow> AerospikeOperatorClientCertSpec option \<Rightarrow> result" where
  "validateTLSClientNames E serviceConf clientCertSpec =
     bnd (ValidateTLSAuthenticateClient E serviceConf) (\<lambda>dnsnames.
       if length dnsnames = 0 then Inr ()
       else
         bnd (readNamesFromLocalCertificate E clientCertSpec) (\<lambda>localCertNames.
           if \<not> containsAnyName dnsnames localCertNames \<and> localCertNames \<noteq> {} then
             Inl (Reject (''tls-authenticate-client (%+v) doesn't contain name from Operator's '' @
                          ''certificate (%+v), configure OperatorClientCertSpec.TLSClientName properly'')
                    [AStrs dnsnames, ANames localCertNames])
           else Inr ()))"

text \<open>
  Without a \<open>tls-name\<close>, no key of the connection may start with \<open>tls-\<close>.  Go ranges
  over the keys in no fixed order; the model names the first such key of the list.
\<close>

definition validateNetworkConnection :: "conf \<Rightarrow> string set \<Rightarrow> string \<Rightarrow> result" where
  "validateNetworkConnection networkConf tlsNames connectionType =
     (case map_of networkConf connectionType of
        None \<Rightarrow> Inr ()
      | Some connectionConfig \<Rightarrow>
          bnd (asMap connectionConfig) (\<lambda>connectionConfigMap.
            case map_of connectionConfigMap ''tls-name'' of
              Some tlsName \<Rightarrow>
                if map_of connectionConfigMap ''tls-port'' = None then
                  Inl (Reject ''you can't specify tls-name for network.%s without specifying tls-port''
                         [AStr connectionType])
                else
                  bnd (asString tlsName) (\<lambda>nm.
                    if nm \<notin> tlsNames then
                      Inl (Reject ''tls-name '%s' is not configured'' [AVal tlsName])
                    else Inr ())
            | None \<Rightarrow>
                (case find (\<lambda>param. HasPrefix param ''tls-'') (map fst connectionConfigMap) of
                   Some param \<Rightarrow>
                     Inl (Reject ''you can't specify %s for network.%s without specifying tls-name''
                            [AStr param, AStr connectionType])
                 | None \<Rightarrow> Inr ())))"

fun tlsConfLoop :: "val list \<Rightarrow> string set \<Rightarrow> error + string set" where
  "tlsConfLoop [] tlsNames = Inr tlsNames"
| "tlsConfLoop (tlsConfInt # rest) tlsNames =
     bnd (asMap tlsConfInt) (\<lambda>tlsConf.
     bnd (case map_of tlsConf ''name'' of
            None \<Rightarrow> Inr tlsNames
          | Some tlsName \<Rightarrow> bnd (asString tlsName) (\<lambda>nm. Inr (insert nm tlsNames))) (\<lambda>tlsNames'.
       if map_of tlsConf ''ca-path'' \<noteq> None \<and> map_of tlsConf ''ca-file'' \<noteq> None then
         Inl (Reject ''both `ca-path` and `ca-file` cannot be set in `tls`. tlsConf %v''
                [AVal (VMap tlsConf)])
       else tlsConfLoop rest tlsNames'))"

fun networkConnectionLoop :: "conf \<Rightarrow> string set \<Rightarrow> string list \<Rightarrow> result" where
  "networkConnectionLoop networkConf tlsNames [] = Inr ()"
| "networkConnectionLoop networkConf tlsNames (connectionType # rest) =
     bnd (validateNetworkConnection networkConf tlsNames connectionType) (\<lambda>_.
       networkConnectionLoop networkConf tlsNames rest)"

definition validateNetworkConfig :: "env \<Rightarrow> AerospikeCluster \<Rightarrow> conf \<Rightarrow> result" where
  "validateNetworkConfig E c networkConf =
     (case map_of networkConf ''service'' of
        None \<Rightarrow> Inl (Reject ''network.service section not found in config'' [])
      | Some serviceConf \<Rightarrow>
          bnd (case map_of networkConf ''tls'' of
                 None \<Rightarrow> Inr {}
               | Some tls \<Rightarrow> bnd (asList tls) (\<lambda>tlsConfList. tlsConfLoop tlsConfList {}))
            (\<lambda>tlsNames.
          bnd (asMap serviceConf) (\<lambda>serviceMap.
          bnd (validateTLSClientNames E serviceMap (OperatorClientCertSpec (Spec c))) (\<lambda>_.
            networkConnectionLoop networkConf tlsNames networkConnectionTypes))))"

section \<open>validateAerospikeConfig\<close>

fun syslogParamsLoop :: "conf \<Rightarrow> string list \<Rightarrow> result" where
  "syslogParamsLoop logConf [] = Inr ()"
| "syslogParamsLoop logConf (param # rest) =
     (if map_of logConf param \<noteq> None then
        Inl (Reject ''can use %s only with `syslog` in aerospikeConfig.logging %v''
               [AStr param, AVal (VMap logConf)])
      else syslogParamsLoop logConf rest)"

fun validateLoggingConf :: "val list \<Rightarrow> result" where
  "validateLoggingConf [] = Inr ()"
| "validateLoggingConf (entry # rest) =
     (case entry of
        VMap logConf \<Rightarrow>
          bnd (if getKey logConf ''name'' \<noteq> VStr ''syslog''
               then syslogParamsLoop logConf [''facility'', ''path'', ''tag'']
               else Inr ()) (\<lambda>_. validateLoggingConf rest)
      | _ \<Rightarrow> Inl (Reject ''aerospikeConfig.logging not a list of valid map %v'' [AVal VNil]))"

definition validateAerospikeConfig ::
  "env \<Rightarrow> AerospikeCluster \<Rightarrow> AerospikeConfigSpec \<Rightarrow> AerospikeStorageSpec \<Rightarrow> int \<Rightarrow> result" where
  "validateAerospikeConfig E c configSpec storage clSize =
     (case Value configSpec of
        None \<Rightarrow> Inl (Reject ''aerospikeConfig cannot be empty'' [])
      | Some config \<Rightarrow>
          (case getKey config ''service'' of
             VMap serviceConf \<Rightarrow>
               bnd (case map_of serviceConf ''advertise-ipv6'' of
                      None \<Rightarrow> Inr False
                    | Some v \<Rightarrow> asBool v) (\<lambda>ipv6.
                 if ipv6 then Inl (Reject ''advertise-ipv6 is not supported'' [])
                 else if map_of serviceConf ''cluster-name'' = None then
                   Inl (Reject (''aerospikeCluster name not found in config. '' @
                                ''Looks like object is not mutated by webhook'') [])
                 else
                   (case getKey config ''network'' of
                      VMap networkConf \<Rightarrow>
                        bnd (validateNetworkConfig E c networkConf) (\<lambda>_.
                          case map_of config ''namespaces'' of
                            None \<Rightarrow>
                              Inl (Reject ''aerospikeConfig.namespace not a present. aerospikeConfig %v''
                                     [AVal (VMap config)])
                          | Some nsListInterface \<Rightarrow>
                              (case nsListInterface of
                                 VNil \<Rightarrow> Inl (Reject ''aerospikeConfig.namespace cannot be nil'' [])
                               | VList nsList \<Rightarrow>
                                   bnd (validateNamespaceConfig E nsList storage clSize) (\<lambda>_.
                                     case getKey config ''logging'' of
                                       VList loggingConfList \<Rightarrow> validateLoggingConf loggingConfList
                                     | _ \<Rightarrow>
                                         Inl (Reject ''aerospikeConfig.logging not a valid list %v''
                                                [AVal (getKey config ''logging'')]))
                               | _ \<Rightarrow>
                                   Inl (Reject ''aerospikeConfig.namespace not valid namespace list %v''
                                          [AVal nsListInterface])))
                    | _ \<Rightarrow>
                        Inl (Reject ''aerospikeConfig.network not a valid map %v''
                               [AVal (getKey config ''network'')])))
           | _ \<Rightarrow>
               Inl (Reject ''aerospikeConfig.service not a valid map %v''
                      [AVal (getKey config ''service'')])))"

section \<open>What the properties speak about\<close>

text \<open>
  The names of the namespaces of a rack whose \<open>strong-consistency\<close> flag is true, read
  off the rack's tree.
\<close>

definition scNameOf :: "val \<Rightarrow> string list" where
  "scNameOf ns =
     (case ns of
        VMap m \<Rightarrow>
          (if map_of m ''strong-consistency'' = Some (VBool True)
           then (case map_of m ''name'' of Some (VStr n) \<Rightarrow> [n] | _ \<Rightarrow> [])
           else [])
      | _ \<Rightarrow> [])"

definition scEnabledNames :: "Rack \<Rightarrow> string set" where
  "scEnabledNames rack =
     (case getKey (valueOf (AerospikeConfig rack)) ''namespaces'' of
        VList nss \<Rightarrow> set (concat (map scNameOf nss))
      | _ \<Rightarrow> {})"

text \<open>
  The section of one connection type in a configuration tree, and the namespace list of
  a configuration, when they have the expected shape.
\<close>

definition connectionOf :: "conf \<Rightarrow> string \<Rightarrow> conf option" where
  "connectionOf config connectionType =
     (case getKey config ''network'' of
        VMap network \<Rightarrow>
          (case map_of network connectionType of Some (VMap m) \<Rightarrow> Some m | _ \<Rightarrow> None)
      | _ \<Rightarrow> None)"

definition namespacesOf :: "AerospikeConfigSpec \<Rightarrow> val list" where
  "namespacesOf s = (case getKey (valueOf s) ''namespaces'' of VList nss \<Rightarrow> nss | _ \<Rightarrow> [])"

text \<open>The port fields that the update check compares: the three ports and their TLS forms.\<close>

definition portFields :: "string list" where
  "portFields = networkPorts @ map (\<lambda>p. ''tls-'' @ p) networkPorts"

text \<open>
  The namespace entries of all racks of a rack configuration, in rack order, and what an
  entry says: its name, its replication factor (2 when absent) and its
  strong-consistency flag.
\<close>

definition rackEntries :: "Rack list \<Rightarrow> val list" where
  "rackEntries racks = concat (map (\<lambda>r. namespacesOf (AerospikeConfig r)) racks)"

definition entryName :: "val \<Rightarrow> string" where
  "entryName e = (case e of VMap m \<Rightarrow> (case map_of m ''name'' of Some (VStr s) \<Rightarrow> s | _ \<Rightarrow> [])
                  | _ \<Rightarrow> [])"

definition entryRF :: "val \<Rightarrow> int" where
  "entryRF e = (case e of
                  VMap m \<Rightarrow> (case map_of m ''replication-factor'' of
                               None \<Rightarrow> 2
                             | Some (VNum r) \<Rightarrow> r
                             | _ \<Rightarrow> 0)
                | _ \<Rightarrow> 0)"

definition entrySC :: "val \<Rightarrow> bool" where
  "entrySC e = (case e of VMap m \<Rightarrow> map_of m ''strong-consistency'' = Some (VBool True)
                | _ \<Rightarrow> False)"

text \<open>
  An entry is a map whose replication factor, when present, is a number of at least 1.
\<close>

definition rfWellFormed :: "val \<Rightarrow> bool" where
  "rfWellFormed e =
     (case e of
        VMap m \<Rightarrow> (case map_of m ''replication-factor'' of
                     None \<Rightarrow> True
                   | Some (VNum r) \<Rightarrow> 1 \<le> r
                   | _ \<Rightarrow> False)
      | _ \<Rightarrow> False)"

definition racksWellFormed :: "Rack list \<Rightarrow> bool" where
  "racksWellFormed racks =
     (list_all (\<lambda>r. getKey (valueOf (AerospikeConfig r)) ''namespaces''
                      = VList (namespacesOf (AerospikeConfig r))) racks
      \<and> list_all rfWellFormed (rackEntries racks))"

text \<open>
  The safety bound as the specification words it: the least of the cluster size and the
  replication factors of all namespaces in all racks, an absent factor counting as 2 and
  factors of 1 left out.
\<close>

definition countedFactors :: "Rack list \<Rightarrow> int list" where
  "countedFactors racks = filter (\<lambda>r. r \<noteq> 1) (map entryRF (rackEntries racks))"

definition safeBound :: "AerospikeCluster \<Rightarrow> int" where
  "safeBound c = Min (set (Size (Spec c) # countedFactors (Racks (SpecRackConfig (Spec c)))))"

definition maxUnavailableMessage :: string where
  "maxUnavailableMessage = ''maxUnavailable %s cannot be greater than or equal to %v as it '' @
                           ''may result in data loss. Set it to a lower value''"

text \<open>
  The entries of a given name over all racks, and what the loops of the batch size check
  see of a rack configuration that they pass: at least two racks, and for every
  namespace entry of every rack, its name is listed in \<open>rackConfig.namespaces\<close>, entries
  of that name occur more than once over the racks, and the last entry of that name has
  a replication factor above 1 and, for the scale-down batch size, no strong consistency.
\<close>

definition entriesNamed :: "val list \<Rightarrow> string \<Rightarrow> val list" where
  "entriesNamed es nm = filter (\<lambda>e. entryName e = nm) es"

definition entrySafe :: "bool \<Rightarrow> string list \<Rightarrow> val list \<Rightarrow> val \<Rightarrow> bool" where
  "entrySafe rollingUpdateBatch namespaces es e =
     (entryName e \<in> set namespaces
      \<and> 1 < length (entriesNamed es (entryName e))
      \<and> 1 < entryRF (last (entriesNamed es (entryName e)))
      \<and> (rollingUpdateBatch \<or> \<not> entrySC (last (entriesNamed es (entryName e)))))"

definition batchSafe :: "bool \<Rightarrow> RackConfig \<Rightarrow> bool" where
  "batchSafe rollingUpdateBatch rc =
     (2 \<le> length (Racks rc)
      \<and> list_all (entrySafe rollingUpdateBatch (Namespaces rc) (rackEntries (Racks rc)))
           (rackEntries (Racks rc)))"

text \<open>The racks that list a namespace of a given name.\<close>

definition racksListing :: "Rack list \<Rightarrow> string \<Rightarrow> Rack list" where
  "racksListing racks nm =
     filter (\<lambda>r. nm \<in> set (map entryName (namespacesOf (AerospikeConfig r)))) racks"

text \<open>The summary that \<open>getNsConfForNamespaces\<close> holds for a name after a run of entries.\<close>

definition summaryAfter :: "(string \<times> nsConf) list \<Rightarrow> val list \<Rightarrow> string \<Rightarrow> nsConf option" where
  "summaryAfter acc es nm =
     (if entriesNamed es nm = [] then map_of acc nm
      else Some \<lparr>noOfRacksForNamespaces =
                   (case map_of acc nm of None \<Rightarrow> 0 | Some old \<Rightarrow> noOfRacksForNamespaces old)
                   + int (length (entriesNamed es nm)),
                 replicationFactor = entryRF (last (entriesNamed es nm)),
                 scEnabled = entrySC (last (entriesNamed es nm))\<rparr>)"

text \<open>
  The message of \<open>validateNamespaceConfig\<close> for a device path that no block volume
  declares, and what an error with that message carries: one such path and the storage
  spec.
\<close>

definition devicePathMessage :: string where
  "devicePathMessage =
     ''namespace storage device related devicePath %v not found in Storage config %v''"

definition namesDevicePath :: "AerospikeStorageSpec \<Rightarrow> string list \<Rightarrow> error \<Rightarrow> bool" where
  "namesDevicePath storage blockStorageDeviceList e =
     (case e of
        Reject f args \<Rightarrow>
          f = devicePathMessage
          \<longrightarrow> (\<exists>dev. dev \<notin> set blockStorageDeviceList \<and> args = [AStr dev, AStorage storage])
      | Panic _ \<Rightarrow> True)"



section \<open>Sample inputs\<close>

text \<open>
  A sample environment: security is enabled when the tree has a \<open>security\<close> section,
  the storage lists are the paths of the persistent volumes by mode, and the string
  functions are the plain ones on space-separated ASCII text.  Its numbers are read
  without a bound, so that a failed reading is always that of a string that is no number,
  and a percentage is scaled in exact arithmetic, which is what the floating point
  computation gives on the small numbers of the examples.
\<close>

fun splitFields :: "string \<Rightarrow> string \<Rightarrow> string list" where
  "splitFields cur [] = (if cur = [] then [] else [rev cur])"
| "splitFields cur (c # cs) =
     (if c = CHR '' '' then (if cur = [] then splitFields [] cs else rev cur # splitFields [] cs)
      else splitFields (c # cur) cs)"

definition digitOf :: "char \<Rightarrow> int option" where
  "digitOf c =
     (let n = (of_char c :: nat)
      in if 48 \<le> n \<and> n \<le> 57 then Some (int n - 48) else None)"

fun digitsValue :: "int \<Rightarrow> string \<Rightarrow> int option" where
  "digitsValue acc [] = Some acc"
| "digitsValue acc (c # cs) =
     (case digitOf c of None \<Rightarrow> None | Some d \<Rightarrow> digitsValue (10 * acc + d) cs)"

definition sampleAtoi :: "string \<Rightarrow> int option" where
  "sampleAtoi s =
     (case s of
        [] \<Rightarrow> None
      | c # cs \<Rightarrow>
          if c = CHR ''-'' then (if cs = [] then None else map_option uminus (digitsValue 0 cs))
          else digitsValue 0 s)"

definition sampleStorageList :: "AerospikeStorageSpec \<Rightarrow> bool \<Rightarrow> error + (string list \<times> string list)" where
  "sampleStorageList st onlyPV =
     Inr (concat (map (\<lambda>v. case (Source v, AerospikePath v) of
                              (PersistentVolume Block, Some p) \<Rightarrow> [p] | _ \<Rightarrow> []) (Volumes st)),
          concat (map (\<lambda>v. case (Source v, AerospikePath v) of
                              (PersistentVolume Filesystem, Some p) \<Rightarrow> [p]
                            | (Secret, Some p) \<Rightarrow> (if onlyPV then [] else [p])
                            | (EmptyDir, Some p) \<Rightarrow> (if onlyPV then [] else [p])
                            | _ \<Rightarrow> []) (Volumes st)))"

definition sampleDir :: "string \<Rightarrow> string" where
  "sampleDir p = rev (drop 1 (dropWhile (\<lambda>c. c \<noteq> CHR ''/'') (rev p)))"

definition sampleRel :: "string \<Rightarrow> string \<Rightarrow> string option" where
  "sampleRel base targ =
     (if take (length base) targ = base then Some (''.'' @ drop (length base) targ)
      else Some ''../other'')"

definition sampleEnv :: env where
  "sampleEnv =
     \<lparr>IsSecurityEnabled = (\<lambda>s. Inr (map_of (valueOf s) ''security'' \<noteq> None)),
      getAerospikeStorageList = sampleStorageList,
      filepathDir = sampleDir,
      filepathRel = sampleRel,
      Atoi = sampleAtoi,
      AtoiFailed = (\<lambda>s. 0),
      ScalePercent = (\<lambda>v tot roundUp. if roundUp then - ((- (v * tot)) div 100) else (v * tot) div 100),
      TrimSpace = (\<lambda>s. rev (dropWhile (\<lambda>c. c = CHR '' '') (rev (dropWhile (\<lambda>c. c = CHR '' '') s)))),
      Fields = splitFields [],
      IsDNSName = (\<lambda>s. s \<noteq> []),
      readCertificate = (\<lambda>p. Inr (''operator'', []))\<rparr>"

text \<open>Namespaces, racks and clusters for the worked examples.\<close>

definition nsEntry :: "string \<Rightarrow> (string \<times> val) list \<Rightarrow> val" where
  "nsEntry nm kvs = VMap ((''name'', VStr nm) # kvs)"

definition deviceEngine :: "string list \<Rightarrow> (string \<times> val)" where
  "deviceEngine ds =
     (''storage-engine'', VMap [(''devices'', VList (map VStr ds)), (''type'', VStr ''device'')])"

definition memoryEngine :: "string \<times> val" where
  "memoryEngine = (''storage-engine'', VMap [(''type'', VStr ''memory'')])"

definition mkConfig :: "(string \<times> val) list \<Rightarrow> AerospikeConfigSpec" where
  "mkConfig m = \<lparr>Value = Some m\<rparr>"

definition mkRack :: "int \<Rightarrow> val list \<Rightarrow> Rack" where
  "mkRack i nss =
     \<lparr>ID = i, NodeName = [], RackLabel = [], Region = [], Zone = [],
      AerospikeConfig = mkConfig [(''namespaces'', VList nss)],
      Storage = \<lparr>Volumes = []\<rparr>\<rparr>"

definition mkRackConfig :: "Rack list \<Rightarrow> string list \<Rightarrow> RackConfig" where
  "mkRackConfig rs nss =
     \<lparr>Racks = rs, Namespaces = nss, RollingUpdateBatchSize = None, ScaleDownBatchSize = None\<rparr>"

definition noPolicy :: AerospikeNetworkPolicy where
  "noPolicy = \<lparr>FabricType = Pod, TLSFabricType = Pod, CustomFabricNetworkNames = None,
               CustomTLSFabricNetworkNames = None\<rparr>"

definition mkCluster ::
  "int \<Rightarrow> IntOrString option \<Rightarrow> bool option \<Rightarrow> RackConfig \<Rightarrow> AerospikeConfigSpec option \<Rightarrow>
   RackConfig \<Rightarrow> AerospikeCluster" where
  "mkCluster sz mu pdb rc st strc =
     \<lparr>Spec = \<lparr>Size = sz, MaxUnavailable = mu, DisablePDB = pdb, SpecRackConfig = rc,
               SpecAerospikeConfig = mkConfig [], SpecStorage = \<lparr>Volumes = []\<rparr>,
               PodSpec = \<lparr>MultiPodPerHost = None\<rparr>, SpecNetworkPolicy = noPolicy,
               OperatorClientCertSpec = None\<rparr>,
      Status = \<lparr>StatusAerospikeConfig = st, StatusRackConfig = strc\<rparr>\<rparr>"

text \<open>
  Two racks that list the same two namespaces in different orders, \<open>test\<close> with strong
  consistency; and a third rack where \<open>test\<close> has lost the flag.
\<close>

definition scRackA :: Rack where
  "scRackA = mkRack 1 [nsEntry ''test'' [deviceEngine [''/dev/sda''], (''strong-consistency'', VBool True)],
                       nsEntry ''bar'' [memoryEngine]]"

definition scRackB :: Rack where
  "scRackB = mkRack 2 [nsEntry ''bar'' [memoryEngine],
                       nsEntry ''test'' [(''replication-factor'', VNum 2), deviceEngine [''/dev/sdb''],
                                         (''strong-consistency'', VBool True)]]"

definition scRackC :: Rack where
  "scRackC = mkRack 3 [nsEntry ''test'' [deviceEngine [''/dev/sdc'']], nsEntry ''bar'' [memoryEngine]]"

definition scCluster :: "Rack list \<Rightarrow> AerospikeCluster" where
  "scCluster rs = mkCluster 2 None None (mkRackConfig rs [''test'', ''bar'']) None (mkRackConfig [] [])"

text \<open>A cluster with the disruption budget disabled and an oversized \<open>maxUnavailable\<close>.\<close>

definition pdbOffCluster :: AerospikeCluster where
  "pdbOffCluster =
     mkCluster 5 (Some (IntVal 100)) (Some True) (mkRackConfig [scRackA, scRackB] [''test'', ''bar''])
       None (mkRackConfig [] [])"

text \<open>Configurations with and without a security section.\<close>

definition secureConfig :: AerospikeConfigSpec where
  "secureConfig = mkConfig [(''namespaces'', VList []), (''security'', VMap [])]"

definition openConfig :: AerospikeConfigSpec where
  "openConfig = mkConfig [(''namespaces'', VList [])]"

text \<open>
  Network sections: a service connection with a TLS name and both ports, one with the TLS
  name changed, one with the port changed, and one that has only a plain port, which a
  later version drops.
\<close>

definition netConfig :: "(string \<times> val) list \<Rightarrow> conf" where
  "netConfig service =
     [(''namespaces'', VList []),
      (''network'', VMap [(''fabric'', VMap [(''port'', VNum 3001)]),
                          (''heartbeat'', VMap [(''port'', VNum 3002)]),
                          (''service'', VMap service)])]"

definition serviceTLS :: "(string \<times> val) list" where
  "serviceTLS = [(''port'', VNum 3000), (''tls-name'', VStr ''aerospike-a''), (''tls-port'', VNum 4333)]"

definition serviceRenamed :: "(string \<times> val) list" where
  "serviceRenamed = [(''port'', VNum 3000), (''tls-name'', VStr ''aerospike-b''), (''tls-port'', VNum 4333)]"

definition serviceMoved :: "(string \<times> val) list" where
  "serviceMoved = [(''port'', VNum 3000), (''tls-name'', VStr ''aerospike-a''), (''tls-port'', VNum 4334)]"

definition servicePlain :: "(string \<times> val) list" where
  "servicePlain = [(''access-port'', VNum 3100), (''port'', VNum 3000)]"

definition serviceDropped :: "(string \<times> val) list" where
  "serviceDropped = [(''port'', VNum 3000)]"

text \<open>
  A configuration with one namespace, and versions of it with a changed replication
  factor and with strong consistency switched on.
\<close>

definition nsConfig :: "val list \<Rightarrow> AerospikeConfigSpec" where
  "nsConfig nss = mkConfig [(''namespaces'', VList nss)]"

definition nsTest :: "(string \<times> val) list" where
  "nsTest = [(''name'', VStr ''test''), (''replication-factor'', VNum 2), deviceEngine [''/dev/sda'']]"

definition nsTestRF3 :: "(string \<times> val) list" where
  "nsTestRF3 = [(''name'', VStr ''test''), (''replication-factor'', VNum 3), deviceEngine [''/dev/sda'']]"

definition nsTestSC :: "(string \<times> val) list" where
  "nsTestSC = [(''name'', VStr ''test''), (''replication-factor'', VNum 2), deviceEngine [''/dev/sda''],
               (''strong-consistency'', VBool True)]"

text \<open>
  A cluster of size 5 whose two racks hold namespaces of replication factors 3 and 2,
  with a given \<open>maxUnavailable\<close>.
\<close>

definition rfRack :: "int \<Rightarrow> Rack" where
  "rfRack i = mkRack i [nsEntry ''bar'' [(''replication-factor'', VNum 3), memoryEngine],
                        nsEntry ''test'' [(''replication-factor'', VNum 2), memoryEngine]]"

definition rfCluster :: "IntOrString \<Rightarrow> AerospikeCluster" where
  "rfCluster mu =
     mkCluster 5 (Some mu) None (mkRackConfig [rfRack 1, rfRack 2] [''bar'', ''test'']) None
       (mkRackConfig [] [])"

text \<open>
  Rack configurations for the batch size check: namespace \<open>test\<close> with replication
  factor 2 in two racks; with factor 1 in the first rack and 2 in the second; two racks
  that each list one namespace twice; and racks in which the namespace has replication
  factor 2 and a given strong-consistency flag.
\<close>

definition batchRack :: "int \<Rightarrow> string \<Rightarrow> int \<Rightarrow> Rack" where
  "batchRack i nm rf = mkRack i [nsEntry nm [(''replication-factor'', VNum rf), memoryEngine]]"

definition twiceRack :: "int \<Rightarrow> string \<Rightarrow> Rack" where
  "twiceRack i nm = mkRack i [nsEntry nm [memoryEngine], nsEntry nm [memoryEngine]]"

definition flagRack :: "int \<Rightarrow> string \<Rightarrow> bool \<Rightarrow> Rack" where
  "flagRack i nm sc =
     mkRack i [nsEntry nm [(''replication-factor'', VNum 2), memoryEngine,
                           (''strong-consistency'', VBool sc)]]"

definition batchCluster :: "Rack list \<Rightarrow> string list \<Rightarrow> AerospikeCluster" where
  "batchCluster rs nss = mkCluster 4 None None (mkRackConfig rs nss) None (mkRackConfig [] [])"

text \<open>A storage spec with one block volume, at \<open>/dev/sda\<close>.\<close>

definition blockStorage :: AerospikeStorageSpec where
  "blockStorage =
     \<lparr>Volumes = [\<lparr>Name = ''ns'', Source = PersistentVolume Block,
                  AerospikePath = Some ''/dev/sda'', CascadeDelete = None\<rparr>]\<rparr>"

text \<open>
  A configuration that passes the structural validation with a network section that
  holds the service connection only.
\<close>

definition serviceOnlyConfig :: AerospikeConfigSpec where
  "serviceOnlyConfig =
     mkConfig [(''logging'', VList []),
               (''namespaces'', VList [nsEntry ''test'' [memoryEngine]]),
               (''network'', VMap [(''service'', VMap [(''port'', VNum 3000)])]),
               (''service'', VMap [(''cluster-name'', VStr ''aerocluster'')])]"








section \<open>Basic facts\<close>

lemma bnd_Inl [simp]: "bnd (Inl e) f = Inl e"
  by (simp add: bnd_def)

lemma bnd_Inr [simp]: "bnd (Inr x) f = f x"
  by (simp add: bnd_def)

lemma bnd_eq_Inr: "bnd m f = Inr y \<longleftrightarrow> (\<exists>x. m = Inr x \<and> f x = Inr y)"
  by (cases m) simp_all

lemma bnd_unit_eq_Inr: "bnd m (\<lambda>_. k) = Inr y \<longleftrightarrow> (\<exists>x. m = Inr x) \<and> k = Inr y"
  by (cases m) simp_all

lemma asMap_eq_Inr [simp]: "asMap v = Inr m \<longleftrightarrow> v = VMap m"
  by (cases v) (simp_all add: asMap_def)

lemma asList_eq_Inr [simp]: "asList v = Inr xs \<longleftrightarrow> v = VList xs"
  by (cases v) (simp_all add: asList_def)

lemma asString_eq_Inr [simp]: "asString v = Inr s \<longleftrightarrow> v = VStr s"
  by (cases v) (simp_all add: asString_def)

lemma asBool_eq_Inr [simp]: "asBool v = Inr b \<longleftrightarrow> v = VBool b"
  by (cases v) (simp_all add: asBool_def)

lemma asMap_VMap [simp]: "asMap (VMap m) = Inr m"
  by (simp add: asMap_def)

lemma asList_VList [simp]: "asList (VList xs) = Inr xs"
  by (simp add: asList_def)

lemma asString_VStr [simp]: "asString (VStr s) = Inr s"
  by (simp add: asString_def)

lemma asBool_VBool [simp]: "asBool (VBool b) = Inr b"
  by (simp add: asBool_def)

lemma getKey_eq_VStr: "getKey m k = VStr s \<longleftrightarrow> map_of m k = Some (VStr s)"
  by (simp add: getKey_def split: option.splits)

lemma getKey_eq_VMap: "getKey m k = VMap x \<longleftrightarrow> map_of m k = Some (VMap x)"
  by (simp add: getKey_def split: option.splits)

lemma getKey_eq_VList: "getKey m k = VList x \<longleftrightarrow> map_of m k = Some (VList x)"
  by (simp add: getKey_def split: option.splits)

lemma IsNSSCEnabled_eq_Inr:
  "IsNSSCEnabled m = Inr b \<longleftrightarrow>
     (map_of m ''strong-consistency'' = None \<and> \<not> b) \<or> map_of m ''strong-consistency'' = Some (VBool b)"
  by (auto simp: IsNSSCEnabled_def split: option.splits)

section \<open>Evaluating the sample inputs\<close>

lemmas sample_defs =
  nsEntry_def deviceEngine_def memoryEngine_def mkConfig_def mkRack_def mkRackConfig_def
  noPolicy_def mkCluster_def valueOf_def getKey_def

lemmas helper_defs =
  IsNSSCEnabled_def isInMemoryNamespace_def isDeviceOrPmemNamespace_def
  isShMemIndexTypeNamespace_def getNamespaceReplicationFactor_def GetIntType_def wrapErr_def
  GetBool_def ContainsString_def isNameExist_def isValueUpdated_def HasPrefix_def HasSuffix_def

section \<open>Strong-consistency namespaces agree across racks\<close>

lemma scNameOf_VMap:
  "scNameOf (VMap m) =
     (if map_of m ''strong-consistency'' = Some (VBool True)
      then (case map_of m ''name'' of Some (VStr n) \<Rightarrow> [n] | _ \<Rightarrow> [])
      else [])"
  by (simp add: scNameOf_def)

lemma scNamespacesOfRack_result:
  "scNamespacesOfRack nss tmp = Inr s \<Longrightarrow> s = tmp \<union> set (concat (map scNameOf nss))"
proof (induction nss arbitrary: tmp)
  case Nil
  then show ?case by simp
next
  case (Cons a nss)
  from Cons.prems obtain m b where a: "a = VMap m" and b: "IsNSSCEnabled m = Inr b"
    and rest: "(if b then
                  bnd (asString (getKey m ''name'')) (\<lambda>nm.
                  bnd (isInMemoryNamespace m) (\<lambda>mem.
                    if mem then
                      Inl (Reject ''in-memory SC namespace is not supported, namespace %v''
                             [AVal (getKey m ''name'')])
                    else scNamespacesOfRack nss (insert nm tmp)))
                else scNamespacesOfRack nss tmp) = Inr s"
    by (auto simp: bnd_eq_Inr)
  show ?case
  proof (cases b)
    case True
    with b have sc: "map_of m ''strong-consistency'' = Some (VBool True)"
      by (simp add: IsNSSCEnabled_eq_Inr)
    from rest True obtain nm where n: "map_of m ''name'' = Some (VStr nm)"
      and r: "scNamespacesOfRack nss (insert nm tmp) = Inr s"
      by (auto simp: bnd_eq_Inr getKey_eq_VStr split: if_splits)
    from Cons.IH[OF r] a sc n show ?thesis by (simp add: scNameOf_VMap)
  next
    case False
    with b have sc: "map_of m ''strong-consistency'' \<noteq> Some (VBool True)"
      by (auto simp: IsNSSCEnabled_eq_Inr)
    from rest False have r: "scNamespacesOfRack nss tmp = Inr s" by simp
    from Cons.IH[OF r] a sc show ?thesis by (simp add: scNameOf_VMap)
  qed
qed

lemma rack_names_result:
  assumes "asList (getKey (valueOf (AerospikeConfig rack)) ''namespaces'') = Inr nsList"
    and "scNamespacesOfRack nsList {} = Inr s"
  shows "scEnabledNames rack = s"
  using assms scNamespacesOfRack_result[of nsList "{}" s]
  by (simp add: scEnabledNames_def)

lemma scRacksLoop_later:
  "scRacksLoop (Suc n) base racks = Inr () \<Longrightarrow> \<forall>r\<in>set racks. scEnabledNames r = base"
proof (induction racks arbitrary: n)
  case Nil
  then show ?case by simp
next
  case (Cons rack racks)
  from Cons.prems obtain nsList s where
    a: "asList (getKey (valueOf (AerospikeConfig rack)) ''namespaces'') = Inr nsList"
    and b: "scNamespacesOfRack nsList {} = Inr s"
    and c: "base = s"
    and d: "scRacksLoop (Suc (Suc n)) base racks = Inr ()"
    by (auto simp: bnd_eq_Inr split: if_splits)
  from rack_names_result[OF a b] c have "scEnabledNames rack = base" by simp
  with Cons.IH[OF d] show ?case by simp
qed

lemma scRacksLoop_first:
  assumes "scRacksLoop 0 base (rack # racks) = Inr ()"
  shows "\<forall>r\<in>set racks. scEnabledNames r = scEnabledNames rack"
proof -
  from assms obtain nsList s where
    a: "asList (getKey (valueOf (AerospikeConfig rack)) ''namespaces'') = Inr nsList"
    and b: "scNamespacesOfRack nsList {} = Inr s"
    and d: "scRacksLoop (Suc 0) s racks = Inr ()"
    by (auto simp: bnd_eq_Inr)
  from rack_names_result[OF a b] scRacksLoop_later[OF d] show ?thesis by simp
qed

text \<open>
  C1.  Whenever \<open>validateSCNamespaces\<close> returns success, every rack has the same set of
  strong-consistency-enabled namespace names as the first rack (the baseline), hence any
  two racks agree; and a descriptor with two racks whose sets differ is not accepted.
\<close>

theorem validateSCNamespaces_same_sc_sets:
  "(validateSCNamespaces c = Inr () \<longrightarrow>
      (\<forall>r\<in>set (Racks (SpecRackConfig (Spec c))).
          scEnabledNames r = scEnabledNames (hd (Racks (SpecRackConfig (Spec c)))))
      \<and> (\<forall>r1\<in>set (Racks (SpecRackConfig (Spec c))).
            \<forall>r2\<in>set (Racks (SpecRackConfig (Spec c))).
              scEnabledNames r1 = scEnabledNames r2))
   \<and> ((\<exists>r1\<in>set (Racks (SpecRackConfig (Spec c))).
          \<exists>r2\<in>set (Racks (SpecRackConfig (Spec c))).
            scEnabledNames r1 \<noteq> scEnabledNames r2) \<longrightarrow>
        validateSCNamespaces c \<noteq> Inr ())"
proof -
  have same: "\<forall>r\<in>set (Racks (SpecRackConfig (Spec c))).
          scEnabledNames r = scEnabledNames (hd (Racks (SpecRackConfig (Spec c))))"
    if ok: "validateSCNamespaces c = Inr ()"
  proof (cases "Racks (SpecRackConfig (Spec c))")
    case Nil
    then show ?thesis by simp
  next
    case (Cons rack racks)
    with ok have "scRacksLoop 0 {} (rack # racks) = Inr ()"
      by (simp add: validateSCNamespaces_def)
    from scRacksLoop_first[OF this] Cons show ?thesis by simp
  qed
  then show ?thesis by metis
qed

theorem validateSCNamespaces_same_sc_sets_witness:
  "validateSCNamespaces (scCluster [scRackA, scRackB]) = Inr ()
   \<and> scEnabledNames scRackA = {''test''}
   \<and> scEnabledNames scRackB = scEnabledNames scRackA
   \<and> validateSCNamespaces (scCluster [scRackA, scRackC]) =
       Inl (Reject (''SC namespaces list is different for different racks. '' @
                    ''All racks should have same SC namespaces'') [])"
proof -
  have h: "validateSCNamespaces (scCluster [scRackA, scRackB]) = Inr ()"
    by (simp add: validateSCNamespaces_def scCluster_def scRackA_def scRackB_def
        sample_defs helper_defs)
  have a: "scEnabledNames scRackA = {''test''}"
    by (simp add: scEnabledNames_def scNameOf_VMap scRackA_def sample_defs)
  have c: "validateSCNamespaces (scCluster [scRackA, scRackC]) =
       Inl (Reject (''SC namespaces list is different for different racks. '' @
                    ''All racks should have same SC namespaces'') [])"
    by (simp add: validateSCNamespaces_def scCluster_def scRackA_def scRackC_def
        sample_defs helper_defs)
  have racks: "Racks (SpecRackConfig (Spec (scCluster [scRackA, scRackB]))) = [scRackA, scRackB]"
    by (simp add: scCluster_def mkCluster_def mkRackConfig_def)
  from validateSCNamespaces_same_sc_sets[of "scCluster [scRackA, scRackB]"] h
  have "\<forall>r\<in>set (Racks (SpecRackConfig (Spec (scCluster [scRackA, scRackB])))).
          scEnabledNames r =
          scEnabledNames (hd (Racks (SpecRackConfig (Spec (scCluster [scRackA, scRackB])))))"
    by blast
  then have b: "scEnabledNames scRackB = scEnabledNames scRackA"
    unfolding racks by simp
  from h a b c show ?thesis by blast
qed

section \<open>The disruption budget switched off\<close>

text \<open>
  C8.  With \<open>spec.disablePDB\<close> true, \<open>validateMaxUnavailable\<close> validates nothing:
  whatever \<open>maxUnavailable\<close> holds, it returns no error and exactly one warning.  The
  warning travels beside a nil error, so it cannot reject the request.
\<close>

theorem validateMaxUnavailable_disabled_pdb:
  assumes "DisablePDB (Spec c) = Some True"
  shows "validateMaxUnavailable E (c\<lparr>Spec := (Spec c)\<lparr>MaxUnavailable := mu\<rparr>\<rparr>) = ([pdbWarning], Inr ())"
  using assms by (simp add: validateMaxUnavailable_def GetBool_def)

theorem validateMaxUnavailable_disabled_pdb_witness:
  "DisablePDB (Spec pdbOffCluster) = Some True
   \<and> validateMaxUnavailable sampleEnv pdbOffCluster = ([pdbWarning], Inr ())
   \<and> validateMaxUnavailable sampleEnv (pdbOffCluster\<lparr>Spec := (Spec pdbOffCluster)\<lparr>MaxUnavailable := None\<rparr>\<rparr>)
       = ([pdbWarning], Inr ())"
proof -
  have h: "DisablePDB (Spec pdbOffCluster) = Some True"
    by (simp add: pdbOffCluster_def mkCluster_def)
  have same: "pdbOffCluster\<lparr>Spec := (Spec pdbOffCluster)\<lparr>MaxUnavailable := Some (IntVal 100)\<rparr>\<rparr>
                = pdbOffCluster"
    by (simp add: pdbOffCluster_def mkCluster_def)
  from validateMaxUnavailable_disabled_pdb[OF h, of sampleEnv "Some (IntVal 100)"] same
  have a: "validateMaxUnavailable sampleEnv pdbOffCluster = ([pdbWarning], Inr ())" by simp
  from h a validateMaxUnavailable_disabled_pdb[OF h, of sampleEnv None] show ?thesis by simp
qed

section \<open>Security is never switched off on a running cluster\<close>

lemma validateAerospikeConfigUpdate_security:
  "validateSecurityConfigUpdate E new old st = Inl e \<Longrightarrow>
   validateAerospikeConfigUpdate E new old st = Inl e"
  by (simp add: validateAerospikeConfigUpdate_def)

text \<open>
  C4.  When the status configuration has security enabled and the incoming configuration
  has it disabled, the security check rejects, and so does the whole configuration
  update check, whose first step it is.  Hence an admitted update never goes from a
  security-enabled status to a security-disabled spec.
\<close>

theorem no_security_downgrade:
  "(IsSecurityEnabled E st = Inr True \<and> IsSecurityEnabled E new = Inr False \<longrightarrow>
      validateSecurityConfigUpdate E new old (Some st)
        = Inl (Reject ''cannot disable cluster security in running cluster'' [])
    \<and> validateAerospikeConfigUpdate E new old (Some st)
        = Inl (Reject ''cannot disable cluster security in running cluster'' []))
   \<and> (validateAerospikeConfigUpdate E new old (Some st) = Inr () \<longrightarrow>
        \<not> (IsSecurityEnabled E st = Inr True \<and> IsSecurityEnabled E new = Inr False))"
proof -
  have a: "validateSecurityConfigUpdate E new old (Some st)
        = Inl (Reject ''cannot disable cluster security in running cluster'' [])"
    if "IsSecurityEnabled E st = Inr True" "IsSecurityEnabled E new = Inr False"
    using that by (simp add: validateSecurityConfigUpdate_def)
  from a validateAerospikeConfigUpdate_security show ?thesis by fastforce
qed

theorem no_security_downgrade_witness:
  "IsSecurityEnabled sampleEnv secureConfig = Inr True
   \<and> IsSecurityEnabled sampleEnv openConfig = Inr False
   \<and> validateSecurityConfigUpdate sampleEnv openConfig openConfig (Some secureConfig)
       = Inl (Reject ''cannot disable cluster security in running cluster'' [])
   \<and> validateAerospikeConfigUpdate sampleEnv openConfig openConfig (Some secureConfig)
       = Inl (Reject ''cannot disable cluster security in running cluster'' [])"
proof -
  have a: "IsSecurityEnabled sampleEnv secureConfig = Inr True"
    by (simp add: sampleEnv_def secureConfig_def mkConfig_def valueOf_def)
  have b: "IsSecurityEnabled sampleEnv openConfig = Inr False"
    by (simp add: sampleEnv_def openConfig_def mkConfig_def valueOf_def)
  from a b no_security_downgrade[of sampleEnv secureConfig openConfig openConfig]
  show ?thesis by blast
qed

section \<open>Network connections on update\<close>

lemma validateNetworkPortUpdate_no_panic:
  "validateNetworkPortUpdate oc nc p = Inl e \<Longrightarrow> \<exists>f a. e = Reject f a"
  by (auto simp: validateNetworkPortUpdate_def Let_def split: if_splits)

lemma networkPortsLoop_rejects:
  "p \<in> set ports \<Longrightarrow> validateNetworkPortUpdate oc nc p \<noteq> Inr () \<Longrightarrow>
   \<exists>f a. networkPortsLoop oc nc ports = Inl (Reject f a)"
proof (induction ports)
  case Nil
  then show ?case by simp
next
  case (Cons q ports)
  show ?case
  proof (cases "validateNetworkPortUpdate oc nc q")
    case (Inl e)
    with validateNetworkPortUpdate_no_panic[OF Inl] show ?thesis by auto
  next
    case (Inr u)
    with Cons show ?thesis by auto
  qed
qed

lemma connection_sections:
  assumes "connectionOf oldConf ct = Some oc" and "connectionOf newConf ct = Some nc"
  shows "validateNetworkConnectionUpdate newConf oldConf ct =
     (if map_of oc ''tls-name'' \<noteq> None \<and> map_of nc ''tls-name'' \<noteq> None
         \<and> map_of oc ''tls-name'' \<noteq> map_of nc ''tls-name''
      then Inl (Reject ''cannot modify tls name'' [])
      else networkPortsLoop oc nc networkPorts)"
  using assms
  by (auto simp: connectionOf_def validateNetworkConnectionUpdate_def Let_def getKey_def
      split: val.splits option.splits)

lemma networkConnectionsLoop_error:
  "ct \<in> set cts \<Longrightarrow> validateNetworkConnectionUpdate newConf oldConf ct \<noteq> Inr () \<Longrightarrow>
   networkConnectionsLoop newConf oldConf cts \<noteq> Inr ()"
  by (induction cts) (auto simp: bnd_eq_Inr)

lemma validateAerospikeConfigUpdate_connection:
  assumes "ct \<in> set networkConnectionTypes"
    and "validateNetworkConnectionUpdate (valueOf new) (valueOf old) ct \<noteq> Inr ()"
  shows "validateAerospikeConfigUpdate E new old st \<noteq> Inr ()"
  using networkConnectionsLoop_error[OF assms]
  by (auto simp: validateAerospikeConfigUpdate_def bnd_eq_Inr)

lemma port_changed_rejected:
  assumes "q \<in> set networkPorts" and "p = q \<or> p = ''tls-'' @ q"
    and "map_of oc p = Some a" and "map_of nc p = Some b" and "a \<noteq> b"
  shows "validateNetworkPortUpdate oc nc q \<noteq> Inr ()"
  using assms by (auto simp: validateNetworkPortUpdate_def Let_def)

lemma port_removed_rejected:
  assumes "(map_of oc q \<noteq> None \<and> map_of nc q = None)
           \<or> (map_of oc (''tls-'' @ q) \<noteq> None \<and> map_of nc (''tls-'' @ q) = None)"
    and "\<not> (map_of oc q \<noteq> None \<and> map_of oc (''tls-'' @ q) \<noteq> None)"
  shows "validateNetworkPortUpdate oc nc q \<noteq> Inr ()"
  using assms by (auto simp: validateNetworkPortUpdate_def Let_def)

lemma portFields_cases:
  "p \<in> set portFields \<Longrightarrow> \<exists>q\<in>set networkPorts. p = q \<or> p = ''tls-'' @ q"
  by (auto simp: portFields_def)

lemma accepted_sections:
  assumes "validateNetworkConnectionUpdate newConf oldConf ct = Inr ()"
  shows "\<exists>oc nc. connectionOf oldConf ct = Some oc \<and> connectionOf newConf ct = Some nc"
  using assms
  by (auto simp: validateNetworkConnectionUpdate_def bnd_eq_Inr connectionOf_def getKey_def
      split: option.splits)

text \<open>
  C6.  For a connection type whose section is present in the old and in the new
  configuration: a changed \<open>tls-name\<close> that both set is rejected; a changed value of one
  of the six port fields that both set is rejected; and a port, or its TLS form, that the
  old configuration sets and the new one lacks is rejected unless the old configuration
  had set both the port and its TLS form.  Read from the other side, the check of a
  connection accepts only when both sections are there, no \<open>tls-name\<close> and no port field
  that both set has changed, and every removed port or TLS port had both forms set
  before.  The configuration update check accepts only if the check of each of service,
  heartbeat and fabric accepts.
\<close>

theorem network_connection_update_rejections:
  "(\<forall>oc nc. connectionOf (valueOf old) ct = Some oc \<and> connectionOf (valueOf new) ct = Some nc \<longrightarrow>
       (\<forall>a b. map_of oc ''tls-name'' = Some a \<and> map_of nc ''tls-name'' = Some b \<and> a \<noteq> b \<longrightarrow>
          validateNetworkConnectionUpdate (valueOf new) (valueOf old) ct
            = Inl (Reject ''cannot modify tls name'' []))
     \<and> (\<forall>p a b. p \<in> set portFields \<and> map_of oc p = Some a \<and> map_of nc p = Some b \<and> a \<noteq> b \<longrightarrow>
          (\<exists>f args. validateNetworkConnectionUpdate (valueOf new) (valueOf old) ct
                       = Inl (Reject f args)))
     \<and> (\<forall>q. q \<in> set networkPorts
            \<and> ((map_of oc q \<noteq> None \<and> map_of nc q = None)
                \<or> (map_of oc (''tls-'' @ q) \<noteq> None \<and> map_of nc (''tls-'' @ q) = None))
            \<and> \<not> (map_of oc q \<noteq> None \<and> map_of oc (''tls-'' @ q) \<noteq> None) \<longrightarrow>
          (\<exists>f args. validateNetworkConnectionUpdate (valueOf new) (valueOf old) ct
                       = Inl (Reject f args))))
   \<and> (validateNetworkConnectionUpdate (valueOf new) (valueOf old) ct = Inr () \<longrightarrow>
        (\<exists>oc nc. connectionOf (valueOf old) ct = Some oc \<and> connectionOf (valueOf new) ct = Some nc
           \<and> (\<forall>a b. map_of oc ''tls-name'' = Some a \<and> map_of nc ''tls-name'' = Some b \<longrightarrow> a = b)
           \<and> (\<forall>p\<in>set portFields. \<forall>a b. map_of oc p = Some a \<and> map_of nc p = Some b \<longrightarrow> a = b)
           \<and> (\<forall>q\<in>set networkPorts.
                  (map_of oc q \<noteq> None \<and> map_of nc q = None)
                  \<or> (map_of oc (''tls-'' @ q) \<noteq> None \<and> map_of nc (''tls-'' @ q) = None) \<longrightarrow>
                  map_of oc q \<noteq> None \<and> map_of oc (''tls-'' @ q) \<noteq> None)))
   \<and> (ct \<in> set networkConnectionTypes \<and> validateAerospikeConfigUpdate E new old st = Inr () \<longrightarrow>
        validateNetworkConnectionUpdate (valueOf new) (valueOf old) ct = Inr ())"
proof -
  let ?check = "validateNetworkConnectionUpdate (valueOf new) (valueOf old) ct"
  have name: "?check = Inl (Reject ''cannot modify tls name'' [])"
    if "connectionOf (valueOf old) ct = Some oc" "connectionOf (valueOf new) ct = Some nc"
      "map_of oc ''tls-name'' = Some a" "map_of nc ''tls-name'' = Some b" "a \<noteq> b" for oc nc a b
    using connection_sections[OF that(1) that(2)] that(3-5) by simp
  have loop: "\<exists>f args. ?check = Inl (Reject f args)"
    if "connectionOf (valueOf old) ct = Some oc" "connectionOf (valueOf new) ct = Some nc"
      "q \<in> set networkPorts" "validateNetworkPortUpdate oc nc q \<noteq> Inr ()" for oc nc q
    using networkPortsLoop_rejects[OF that(3) that(4)] connection_sections[OF that(1) that(2)]
    by auto
  have port: "\<exists>f args. ?check = Inl (Reject f args)"
    if "connectionOf (valueOf old) ct = Some oc" "connectionOf (valueOf new) ct = Some nc"
      "p \<in> set portFields" "map_of oc p = Some a" "map_of nc p = Some b" "a \<noteq> b" for oc nc p a b
  proof -
    from portFields_cases[OF that(3)] obtain q where q: "q \<in> set networkPorts"
      and pq: "p = q \<or> p = ''tls-'' @ q" by blast
    from loop[OF that(1) that(2) q port_changed_rejected[OF q pq that(4) that(5) that(6)]]
    show ?thesis .
  qed
  have gone: "\<exists>f args. ?check = Inl (Reject f args)"
    if "connectionOf (valueOf old) ct = Some oc" "connectionOf (valueOf new) ct = Some nc"
      "q \<in> set networkPorts"
      "(map_of oc q \<noteq> None \<and> map_of nc q = None)
       \<or> (map_of oc (''tls-'' @ q) \<noteq> None \<and> map_of nc (''tls-'' @ q) = None)"
      "\<not> (map_of oc q \<noteq> None \<and> map_of oc (''tls-'' @ q) \<noteq> None)" for oc nc q
    using loop[OF that(1) that(2) that(3) port_removed_rejected[OF that(4) that(5)]] .
  have first: "\<forall>oc nc. connectionOf (valueOf old) ct = Some oc
                 \<and> connectionOf (valueOf new) ct = Some nc \<longrightarrow>
       (\<forall>a b. map_of oc ''tls-name'' = Some a \<and> map_of nc ''tls-name'' = Some b \<and> a \<noteq> b \<longrightarrow>
          ?check = Inl (Reject ''cannot modify tls name'' []))
     \<and> (\<forall>p a b. p \<in> set portFields \<and> map_of oc p = Some a \<and> map_of nc p = Some b \<and> a \<noteq> b \<longrightarrow>
          (\<exists>f args. ?check = Inl (Reject f args)))
     \<and> (\<forall>q. q \<in> set networkPorts
            \<and> ((map_of oc q \<noteq> None \<and> map_of nc q = None)
                \<or> (map_of oc (''tls-'' @ q) \<noteq> None \<and> map_of nc (''tls-'' @ q) = None))
            \<and> \<not> (map_of oc q \<noteq> None \<and> map_of oc (''tls-'' @ q) \<noteq> None) \<longrightarrow>
          (\<exists>f args. ?check = Inl (Reject f args)))"
    using name port gone by blast
  have second: "\<exists>oc nc. connectionOf (valueOf old) ct = Some oc
           \<and> connectionOf (valueOf new) ct = Some nc
           \<and> (\<forall>a b. map_of oc ''tls-name'' = Some a \<and> map_of nc ''tls-name'' = Some b \<longrightarrow> a = b)
           \<and> (\<forall>p\<in>set portFields. \<forall>a b. map_of oc p = Some a \<and> map_of nc p = Some b \<longrightarrow> a = b)
           \<and> (\<forall>q\<in>set networkPorts.
                  (map_of oc q \<noteq> None \<and> map_of nc q = None)
                  \<or> (map_of oc (''tls-'' @ q) \<noteq> None \<and> map_of nc (''tls-'' @ q) = None) \<longrightarrow>
                  map_of oc q \<noteq> None \<and> map_of oc (''tls-'' @ q) \<noteq> None)"
    if ok: "?check = Inr ()"
  proof -
    from accepted_sections[OF ok] obtain oc nc
      where s: "connectionOf (valueOf old) ct = Some oc" "connectionOf (valueOf new) ct = Some nc"
      by blast
    have n: "a = b" if "map_of oc ''tls-name'' = Some a" "map_of nc ''tls-name'' = Some b" for a b
      using name[OF s that] ok by auto
    have p: "a = b" if "p \<in> set portFields" "map_of oc p = Some a" "map_of nc p = Some b" for p a b
      using port[OF s that] ok by auto
    have g: "map_of oc q \<noteq> None \<and> map_of oc (''tls-'' @ q) \<noteq> None"
      if "q \<in> set networkPorts"
        "(map_of oc q \<noteq> None \<and> map_of nc q = None)
         \<or> (map_of oc (''tls-'' @ q) \<noteq> None \<and> map_of nc (''tls-'' @ q) = None)" for q
    proof (rule ccontr)
      assume "\<not> (map_of oc q \<noteq> None \<and> map_of oc (''tls-'' @ q) \<noteq> None)"
      from gone[OF s that this] ok show False by auto
    qed
    from s n p g show ?thesis by blast
  qed
  have third: "?check = Inr ()"
    if "ct \<in> set networkConnectionTypes" "validateAerospikeConfigUpdate E new old st = Inr ()"
    using validateAerospikeConfigUpdate_connection[OF that(1), of new old E st] that(2) by auto
  from first second third show ?thesis by blast
qed

lemma connectionOf_netConfig:
  "connectionOf (valueOf (mkConfig (netConfig s))) ''service'' = Some s"
  by (simp add: connectionOf_def netConfig_def mkConfig_def valueOf_def getKey_def)

theorem network_connection_update_rejections_witness:
  "''service'' \<in> set networkConnectionTypes
   \<and> connectionOf (valueOf (mkConfig (netConfig serviceTLS))) ''service'' = Some serviceTLS
   \<and> connectionOf (valueOf (mkConfig (netConfig serviceRenamed))) ''service'' = Some serviceRenamed
   \<and> validateNetworkConnectionUpdate (valueOf (mkConfig (netConfig serviceRenamed)))
        (valueOf (mkConfig (netConfig serviceTLS))) ''service''
       = Inl (Reject ''cannot modify tls name'' [])
   \<and> validateAerospikeConfigUpdate sampleEnv (mkConfig (netConfig serviceRenamed))
        (mkConfig (netConfig serviceTLS)) None \<noteq> Inr ()
   \<and> validateAerospikeConfigUpdate sampleEnv (mkConfig (netConfig serviceMoved))
        (mkConfig (netConfig serviceTLS)) None \<noteq> Inr ()
   \<and> validateAerospikeConfigUpdate sampleEnv (mkConfig (netConfig serviceDropped))
        (mkConfig (netConfig servicePlain)) None \<noteq> Inr ()
   \<and> validateNetworkConnectionUpdate (valueOf (mkConfig (netConfig serviceDropped)))
        (valueOf (mkConfig (netConfig serviceTLS))) ''service'' = Inr ()"
proof -
  have ct: "''service'' \<in> set networkConnectionTypes"
    by (simp add: networkConnectionTypes_def)
  note sec = connectionOf_netConfig
  have a: "map_of serviceTLS ''tls-name'' = Some (VStr ''aerospike-a'')
           \<and> map_of serviceRenamed ''tls-name'' = Some (VStr ''aerospike-b'')
           \<and> VStr ''aerospike-a'' \<noteq> VStr ''aerospike-b''"
    by (simp add: serviceTLS_def serviceRenamed_def)
  have b: "''tls-port'' \<in> set portFields \<and> map_of serviceTLS ''tls-port'' = Some (VNum 4333)
           \<and> map_of serviceMoved ''tls-port'' = Some (VNum 4334) \<and> VNum 4333 \<noteq> VNum 4334"
    by (simp add: serviceTLS_def serviceMoved_def portFields_def networkPorts_def)
  have c: "''access-port'' \<in> set networkPorts
           \<and> ((map_of servicePlain ''access-port'' \<noteq> None \<and> map_of serviceDropped ''access-port'' = None)
               \<or> (map_of servicePlain (''tls-'' @ ''access-port'') \<noteq> None
                   \<and> map_of serviceDropped (''tls-'' @ ''access-port'') = None))
           \<and> \<not> (map_of servicePlain ''access-port'' \<noteq> None
                  \<and> map_of servicePlain (''tls-'' @ ''access-port'') \<noteq> None)"
    by (simp add: servicePlain_def serviceDropped_def networkPorts_def)
  from network_connection_update_rejections[of "mkConfig (netConfig serviceTLS)" "''service''"
      "mkConfig (netConfig serviceRenamed)" sampleEnv None] ct a sec[of serviceTLS] sec[of serviceRenamed]
  have r1: "validateNetworkConnectionUpdate (valueOf (mkConfig (netConfig serviceRenamed)))
        (valueOf (mkConfig (netConfig serviceTLS))) ''service''
       = Inl (Reject ''cannot modify tls name'' [])
     \<and> validateAerospikeConfigUpdate sampleEnv (mkConfig (netConfig serviceRenamed))
        (mkConfig (netConfig serviceTLS)) None \<noteq> Inr ()"
    by (metis Inl_Inr_False)
  from network_connection_update_rejections[of "mkConfig (netConfig serviceTLS)" "''service''"
      "mkConfig (netConfig serviceMoved)" sampleEnv None] ct b sec[of serviceTLS] sec[of serviceMoved]
  have r2: "validateAerospikeConfigUpdate sampleEnv (mkConfig (netConfig serviceMoved))
        (mkConfig (netConfig serviceTLS)) None \<noteq> Inr ()"
    by (metis Inl_Inr_False)
  from network_connection_update_rejections[of "mkConfig (netConfig servicePlain)" "''service''"
      "mkConfig (netConfig serviceDropped)" sampleEnv None] ct c sec[of servicePlain] sec[of serviceDropped]
  have r3: "validateAerospikeConfigUpdate sampleEnv (mkConfig (netConfig serviceDropped))
        (mkConfig (netConfig servicePlain)) None \<noteq> Inr ()"
    by (metis Inl_Inr_False)
  have r4: "validateNetworkConnectionUpdate (valueOf (mkConfig (netConfig serviceDropped)))
        (valueOf (mkConfig (netConfig serviceTLS))) ''service'' = Inr ()"
    by (simp add: validateNetworkConnectionUpdate_def validateNetworkPortUpdate_def networkPorts_def
        netConfig_def mkConfig_def valueOf_def getKey_def serviceDropped_def serviceTLS_def)
  from ct r1 r2 r3 r4 sec show ?thesis by blast
qed

section \<open>Replication factor and strong consistency are frozen\<close>

lemma ifaceEq_same: "ifaceEq a a = Inr b \<Longrightarrow> b"
  by (cases a) (auto simp: ifaceEq_def)

lemma nsConfOldLoop_ok:
  "nsConfOldLoop n olds = Inr () \<Longrightarrow> VMap oldNs \<in> set olds \<Longrightarrow>
   getKey n ''name'' = getKey oldNs ''name'' \<Longrightarrow>
   \<not> isValueUpdated oldNs n ''replication-factor'' \<and> \<not> isValueUpdated oldNs n ''strong-consistency''"
proof (induction olds)
  case Nil
  then show ?case by simp
next
  case (Cons x olds)
  from Cons.prems(1) obtain m same where x: "x = VMap m"
    and eq: "ifaceEq (getKey n ''name'') (getKey m ''name'') = Inr same"
    and ok: "\<not> (same \<and> isValueUpdated m n ''replication-factor'')"
            "\<not> (same \<and> isValueUpdated m n ''strong-consistency'')"
    and rest: "nsConfOldLoop n olds = Inr ()"
    by (auto simp: bnd_eq_Inr split: val.splits if_splits)
  show ?case
  proof (cases "oldNs = m")
    case True
    with eq Cons.prems(3) have same by (auto dest: ifaceEq_same)
    with ok True show ?thesis by simp
  next
    case False
    with Cons.prems(2) x have "VMap oldNs \<in> set olds" by simp
    from Cons.IH[OF rest this Cons.prems(3)] show ?thesis .
  qed
qed

lemma nsConfNewLoop_ok:
  "nsConfNewLoop news olds = Inr () \<Longrightarrow> VMap n \<in> set news \<Longrightarrow>
   nsConfOldLoop n olds = Inr ()"
  by (induction news) (auto simp: bnd_eq_Inr split: val.splits)

lemma validateNsConfUpdate_loops:
  assumes "validateNsConfUpdate new old st = Inr ()"
  shows "nsConfNewLoop (namespacesOf new) (namespacesOf old) = Inr ()"
  using assms by (auto simp: validateNsConfUpdate_def namespacesOf_def bnd_eq_Inr)

lemma validateAerospikeConfigUpdate_ns:
  "validateAerospikeConfigUpdate E new old st = Inr () \<Longrightarrow> validateNsConfUpdate new old st = Inr ()"
  by (auto simp: validateAerospikeConfigUpdate_def bnd_eq_Inr)

text \<open>
  C9.  Take a namespace of the new configuration and one of the old configuration with
  the same name.  If the update check of the namespaces accepts (and so whenever the
  whole configuration update check accepts), the two have the same
  \<open>replication-factor\<close> entry and the same \<open>strong-consistency\<close> entry: a change of
  either is not accepted.
\<close>

theorem namespace_rf_sc_frozen:
  assumes "VMap n \<in> set (namespacesOf new)" and "VMap oldNs \<in> set (namespacesOf old)"
    and "getKey n ''name'' = getKey oldNs ''name''"
  shows "(validateNsConfUpdate new old st = Inr () \<or> validateAerospikeConfigUpdate E new old st = Inr ()
            \<longrightarrow> map_of n ''replication-factor'' = map_of oldNs ''replication-factor''
              \<and> map_of n ''strong-consistency'' = map_of oldNs ''strong-consistency'')
       \<and> (map_of n ''replication-factor'' \<noteq> map_of oldNs ''replication-factor''
            \<or> map_of n ''strong-consistency'' \<noteq> map_of oldNs ''strong-consistency''
            \<longrightarrow> validateNsConfUpdate new old st \<noteq> Inr ()
              \<and> validateAerospikeConfigUpdate E new old st \<noteq> Inr ())"
proof -
  have kept: "map_of n ''replication-factor'' = map_of oldNs ''replication-factor''
              \<and> map_of n ''strong-consistency'' = map_of oldNs ''strong-consistency''"
    if ok: "validateNsConfUpdate new old st = Inr ()"
  proof -
    from nsConfNewLoop_ok[OF validateNsConfUpdate_loops[OF ok] assms(1)]
    have "nsConfOldLoop n (namespacesOf old) = Inr ()" .
    from nsConfOldLoop_ok[OF this assms(2) assms(3)] show ?thesis
      by (auto simp: isValueUpdated_def)
  qed
  with validateAerospikeConfigUpdate_ns[of E new old st] show ?thesis by blast
qed

theorem namespace_rf_sc_frozen_witness:
  "VMap nsTestRF3 \<in> set (namespacesOf (nsConfig [VMap nsTestRF3]))
   \<and> VMap nsTest \<in> set (namespacesOf (nsConfig [VMap nsTest]))
   \<and> getKey nsTestRF3 ''name'' = getKey nsTest ''name''
   \<and> validateNsConfUpdate (nsConfig [VMap nsTestRF3]) (nsConfig [VMap nsTest]) None \<noteq> Inr ()
   \<and> validateNsConfUpdate (nsConfig [VMap nsTestSC]) (nsConfig [VMap nsTest]) None \<noteq> Inr ()
   \<and> validateNsConfUpdate (nsConfig [VMap nsTest]) (nsConfig [VMap nsTest]) None = Inr ()"
proof -
  have a: "VMap x \<in> set (namespacesOf (nsConfig [VMap x]))" for x
    by (simp add: namespacesOf_def nsConfig_def mkConfig_def valueOf_def getKey_def)
  have b: "getKey nsTestRF3 ''name'' = getKey nsTest ''name''"
          "getKey nsTestSC ''name'' = getKey nsTest ''name''"
    by (simp_all add: getKey_def nsTestRF3_def nsTestSC_def nsTest_def)
  have c: "map_of nsTestRF3 ''replication-factor'' \<noteq> map_of nsTest ''replication-factor''"
          "map_of nsTestSC ''strong-consistency'' \<noteq> map_of nsTest ''strong-consistency''"
    by (simp_all add: nsTestRF3_def nsTestSC_def nsTest_def deviceEngine_def)
  from namespace_rf_sc_frozen[OF a[of nsTestRF3] a[of nsTest] b(1), of None sampleEnv] c(1)
  have r1: "validateNsConfUpdate (nsConfig [VMap nsTestRF3]) (nsConfig [VMap nsTest]) None \<noteq> Inr ()"
    by blast
  from namespace_rf_sc_frozen[OF a[of nsTestSC] a[of nsTest] b(2), of None sampleEnv] c(2)
  have r2: "validateNsConfUpdate (nsConfig [VMap nsTestSC]) (nsConfig [VMap nsTest]) None \<noteq> Inr ()"
    by blast
  have r3: "validateNsConfUpdate (nsConfig [VMap nsTest]) (nsConfig [VMap nsTest]) None = Inr ()"
    by (simp add: validateNsConfUpdate_def validateStorageEngineDeviceListUpdate_def
        validateStorageEngineDeviceList_def nsConfig_def mkConfig_def valueOf_def getKey_def
        nsTest_def deviceEngine_def ifaceEq_def isValueUpdated_def)
  from a[of nsTestRF3] a[of nsTest] b(1) r1 r2 r3 show ?thesis by blast
qed

section \<open>The bound on maxUnavailable\<close>

lemma rfWellFormed_D:
  assumes "rfWellFormed e"
  shows "\<exists>m. e = VMap m
           \<and> ((map_of m ''replication-factor'' = None \<and> entryRF e = 2)
              \<or> (\<exists>r. 1 \<le> r \<and> map_of m ''replication-factor'' = Some (VNum r) \<and> entryRF e = r))"
proof (cases e)
  case (VMap m)
  show ?thesis
  proof (cases "map_of m ''replication-factor''")
    case None
    with VMap show ?thesis by (simp add: entryRF_def)
  next
    case (Some v)
    with VMap assms show ?thesis
      by (cases v) (simp_all add: rfWellFormed_def entryRF_def)
  qed
qed (use assms in \<open>simp_all add: rfWellFormed_def\<close>)

lemma fold_min_bound: "\<forall>x\<in>set xs. (2::int) \<le> x \<Longrightarrow> 2 \<le> s \<Longrightarrow> 2 \<le> fold min xs s"
  by (induction xs arbitrary: s) auto

lemma maxUnavailableNsLoop_value:
  "list_all rfWellFormed nss \<Longrightarrow> 2 \<le> s \<Longrightarrow>
   maxUnavailableNsLoop nss s = Inr (fold min (filter (\<lambda>r. r \<noteq> 1) (map entryRF nss)) s)
   \<and> 2 \<le> fold min (filter (\<lambda>r. r \<noteq> 1) (map entryRF nss)) s"
proof (induction nss arbitrary: s)
  case Nil
  then show ?case by simp
next
  case (Cons e nss)
  from Cons.prems have wf: "rfWellFormed e" and rest: "list_all rfWellFormed nss" by simp_all
  from rfWellFormed_D[OF wf] obtain m where e: "e = VMap m"
    and alt: "(map_of m ''replication-factor'' = None \<and> entryRF e = 2)
              \<or> (\<exists>r. 1 \<le> r \<and> map_of m ''replication-factor'' = Some (VNum r) \<and> entryRF e = r)"
    by blast
  from alt show ?case
  proof
    assume a: "map_of m ''replication-factor'' = None \<and> entryRF e = 2"
    from Cons.prems(2) have "min 2 s = 2" by simp
    with a e Cons.IH[OF rest, of 2] show ?thesis by simp
  next
    assume "\<exists>r. 1 \<le> r \<and> map_of m ''replication-factor'' = Some (VNum r) \<and> entryRF e = r"
    then obtain r where r1: "1 \<le> r" and mr: "map_of m ''replication-factor'' = Some (VNum r)"
      and er: "entryRF e = r" by blast
    have get: "wrapErr ''namespace replication-factor %v'' [] (GetIntType (VNum r)) = Inr r"
      by (simp add: GetIntType_def wrapErr_def)
    show ?thesis
    proof (cases "r = 1")
      case True
      with e mr er get Cons.IH[OF rest Cons.prems(2)] show ?thesis by simp
    next
      case False
      with r1 have r2: "2 \<le> r" by simp
      show ?thesis
      proof (cases "r < s")
        case True
        then have "min r s = r" by simp
        with e mr er get False True Cons.IH[OF rest r2] show ?thesis by simp
      next
        case ge: False
        then have "min r s = s" by simp
        with e mr er get False ge Cons.IH[OF rest Cons.prems(2)] show ?thesis by simp
      qed
    qed
  qed
qed

lemma maxUnavailableRacksLoop_value:
  "racksWellFormed racks \<Longrightarrow> 2 \<le> s \<Longrightarrow>
   maxUnavailableRacksLoop racks s = Inr (fold min (countedFactors racks) s)"
proof (induction racks arbitrary: s)
  case Nil
  then show ?case by (simp add: countedFactors_def rackEntries_def)
next
  case (Cons r racks)
  from Cons.prems(1) have
    shape: "getKey (valueOf (AerospikeConfig r)) ''namespaces'' = VList (namespacesOf (AerospikeConfig r))"
    and wf: "list_all rfWellFormed (namespacesOf (AerospikeConfig r))"
    and rest: "racksWellFormed racks"
    by (simp_all add: racksWellFormed_def rackEntries_def)
  from maxUnavailableNsLoop_value[OF wf Cons.prems(2)] Cons.IH[OF rest] shape
  show ?case by (simp add: countedFactors_def rackEntries_def)
qed

lemma safeBound_fold:
  "safeBound c = fold min (countedFactors (Racks (SpecRackConfig (Spec c)))) (Size (Spec c))"
  unfolding safeBound_def by (rule Min.set_eq_fold)

lemma validateIntOrStringField_count:
  "validateIntOrStringField E (Some (IntVal n)) path =
     (if n < 0 then Inl (Reject ''can not use negative %s: %s'' [AStr path, AIntStr (IntVal n)])
      else Inr ())"
  by (simp add: validateIntOrStringField_def GetScaledValueFromIntOrPercent_def isStringType_def)

text \<open>
  C2, as amended.  Take a descriptor with the disruption budget enabled whose
  \<open>maxUnavailable\<close> is an integer count \<open>n\<close>.  A negative count is rejected by the field
  check.  Otherwise the check is skipped for cluster size 1; and for a size of at least 2
  and racks whose namespaces are maps with a replication factor that is absent or a
  number of at least 1, the bound is the least of the cluster size and the replication
  factors of all namespaces of all racks (absent counts as 2, factors of 1 are left out),
  and the count is rejected exactly when it reaches the bound, the message carrying the
  request and the bound.
\<close>

theorem maxUnavailable_count_bound:
  assumes "\<not> GetBool (DisablePDB (Spec c))" and "MaxUnavailable (Spec c) = Some (IntVal n)"
  shows "(n < 0 \<longrightarrow>
            snd (validateMaxUnavailable E c)
              = Inl (Reject ''can not use negative %s: %s''
                       [AStr ''spec.maxUnavailable'', AIntStr (IntVal n)]))
       \<and> (0 \<le> n \<and> Size (Spec c) = 1 \<longrightarrow> snd (validateMaxUnavailable E c) = Inr ())
       \<and> (0 \<le> n \<and> 2 \<le> Size (Spec c) \<and> racksWellFormed (Racks (SpecRackConfig (Spec c))) \<longrightarrow>
            snd (validateMaxUnavailable E c)
              = (if safeBound c \<le> n
                 then Inl (Reject maxUnavailableMessage [AIntStr (IntVal n), AInt (safeBound c)])
                 else Inr ()))"
proof -
  have neg: "snd (validateMaxUnavailable E c)
              = Inl (Reject ''can not use negative %s: %s''
                       [AStr ''spec.maxUnavailable'', AIntStr (IntVal n)])" if "n < 0"
    using assms that by (simp add: validateMaxUnavailable_def validateIntOrStringField_count)
  have one: "snd (validateMaxUnavailable E c) = Inr ()" if "0 \<le> n" "Size (Spec c) = 1"
    using assms that by (simp add: validateMaxUnavailable_def validateIntOrStringField_count)
  have many: "snd (validateMaxUnavailable E c)
              = (if safeBound c \<le> n
                 then Inl (Reject maxUnavailableMessage [AIntStr (IntVal n), AInt (safeBound c)])
                 else Inr ())"
    if "0 \<le> n" "2 \<le> Size (Spec c)" "racksWellFormed (Racks (SpecRackConfig (Spec c)))"
  proof -
    from maxUnavailableRacksLoop_value[OF that(3) that(2)]
    have "maxUnavailableRacksLoop (Racks (SpecRackConfig (Spec c))) (Size (Spec c))
            = Inr (safeBound c)"
      by (simp add: safeBound_fold)
    with assms that(1) that(2) show ?thesis
      by (simp add: validateMaxUnavailable_def validateIntOrStringField_count IntValue_def
          maxUnavailableMessage_def)
  qed
  from neg one many show ?thesis by blast
qed

lemma rfCluster_fields:
  "\<not> GetBool (DisablePDB (Spec (rfCluster mu)))"
  "MaxUnavailable (Spec (rfCluster mu)) = Some mu"
  "Size (Spec (rfCluster mu)) = 5"
  "Racks (SpecRackConfig (Spec (rfCluster mu))) = [rfRack 1, rfRack 2]"
  by (simp_all add: rfCluster_def mkCluster_def mkRackConfig_def GetBool_def)

lemma rfRack_entries:
  "getKey (valueOf (AerospikeConfig (rfRack i))) ''namespaces''
     = VList (namespacesOf (AerospikeConfig (rfRack i)))"
  "map entryRF (namespacesOf (AerospikeConfig (rfRack i))) = [3, 2]"
  "list_all rfWellFormed (namespacesOf (AerospikeConfig (rfRack i)))"
  by (simp_all add: rfRack_def mkRack_def mkConfig_def valueOf_def getKey_def namespacesOf_def
      nsEntry_def memoryEngine_def entryRF_def rfWellFormed_def)

lemma rfCluster_wellFormed: "racksWellFormed [rfRack 1, rfRack 2]"
  by (simp add: racksWellFormed_def rackEntries_def rfRack_entries)

lemma rfCluster_safeBound: "safeBound (rfCluster mu) = 2"
  by (simp add: safeBound_fold rfCluster_fields countedFactors_def rackEntries_def rfRack_entries)

theorem maxUnavailable_count_bound_witness:
  "\<not> GetBool (DisablePDB (Spec (rfCluster (IntVal 2))))
   \<and> MaxUnavailable (Spec (rfCluster (IntVal 2))) = Some (IntVal 2)
   \<and> racksWellFormed (Racks (SpecRackConfig (Spec (rfCluster (IntVal 2)))))
   \<and> safeBound (rfCluster (IntVal 2)) = 2
   \<and> snd (validateMaxUnavailable sampleEnv (rfCluster (IntVal 2)))
       = Inl (Reject maxUnavailableMessage [AIntStr (IntVal 2), AInt 2])
   \<and> snd (validateMaxUnavailable sampleEnv (rfCluster (IntVal 1))) = Inr ()"
proof -
  have wf: "racksWellFormed (Racks (SpecRackConfig (Spec (rfCluster mu))))" for mu
    by (simp add: rfCluster_fields rfCluster_wellFormed)
  from maxUnavailable_count_bound[OF rfCluster_fields(1) rfCluster_fields(2), of 2 sampleEnv] wf
  have a: "snd (validateMaxUnavailable sampleEnv (rfCluster (IntVal 2)))
       = Inl (Reject maxUnavailableMessage [AIntStr (IntVal 2), AInt 2])"
    by (simp add: rfCluster_fields rfCluster_safeBound)
  from maxUnavailable_count_bound[OF rfCluster_fields(1) rfCluster_fields(2), of 1 sampleEnv] wf
  have b: "snd (validateMaxUnavailable sampleEnv (rfCluster (IntVal 1))) = Inr ()"
    by (simp add: rfCluster_fields rfCluster_safeBound)
  from a b wf rfCluster_fields rfCluster_safeBound show ?thesis by blast
qed

text \<open>
  The claim as first stated fails on this cluster, whose bound is 2: the count \<open>-1\<close> is
  below the bound and is rejected all the same, by the field check; and the request
  \<open>50%\<close>, which is 2 or 3 of the 5 members, is accepted, \<open>IntValue\<close> reading a
  percentage as 0.
\<close>

theorem maxUnavailable_counterexample:
  "safeBound (rfCluster (IntVal (- 1))) = 2
   \<and> IntValue sampleEnv (IntVal (- 1)) < 2
   \<and> snd (validateMaxUnavailable sampleEnv (rfCluster (IntVal (- 1))))
       = Inl (Reject ''can not use negative %s: %s''
                [AStr ''spec.maxUnavailable'', AIntStr (IntVal (- 1))])
   \<and> GetScaledValueFromIntOrPercent sampleEnv (Some (StrVal ''50%'')) 5 False = Inr 2
   \<and> GetScaledValueFromIntOrPercent sampleEnv (Some (StrVal ''50%'')) 5 True = Inr 3
   \<and> IntValue sampleEnv (StrVal ''50%'') = 0
   \<and> snd (validateMaxUnavailable sampleEnv (rfCluster (StrVal ''50%''))) = Inr ()"
proof -
  have atoi: "Atoi sampleEnv ''50'' = Some 50" "Atoi sampleEnv ''50%'' = None"
    by (simp_all add: sampleEnv_def sampleAtoi_def digitOf_def)
  have num: "AtoiFailed sampleEnv ''50%'' = 0"
    "ScalePercent sampleEnv 50 t up = (if up then - ((- (50 * t)) div 100) else (50 * t) div 100)"
    for t up
    by (simp_all add: sampleEnv_def)
  have scaled: "GetScaledValueFromIntOrPercent sampleEnv (Some (StrVal ''50%'')) t up
                  = Inr (if up then - ((- (50 * t)) div 100) else (50 * t) div 100)" for t up
    using atoi num by (simp add: GetScaledValueFromIntOrPercent_def HasSuffix_def)
  have iv: "IntValue sampleEnv (StrVal ''50%'') = 0"
    using atoi num by (simp add: IntValue_def)
  have field: "validateIntOrStringField sampleEnv (Some (StrVal ''50%'')) ''spec.maxUnavailable'' = Inr ()"
    by (simp add: validateIntOrStringField_def scaled isStringType_def)
  have loop: "maxUnavailableRacksLoop [rfRack 1, rfRack 2] 5 = Inr 2"
    using maxUnavailableRacksLoop_value[OF rfCluster_wellFormed, of 5]
    by (simp add: countedFactors_def rackEntries_def rfRack_entries)
  have pct: "snd (validateMaxUnavailable sampleEnv (rfCluster (StrVal ''50%''))) = Inr ()"
    by (simp add: validateMaxUnavailable_def rfCluster_fields field loop iv
        del: maxUnavailableRacksLoop.simps)
  have neg: "snd (validateMaxUnavailable sampleEnv (rfCluster (IntVal (- 1))))
       = Inl (Reject ''can not use negative %s: %s''
                [AStr ''spec.maxUnavailable'', AIntStr (IntVal (- 1))])"
    by (simp add: validateMaxUnavailable_def rfCluster_fields validateIntOrStringField_count)
  have "IntValue sampleEnv (IntVal (- 1)) < 2" by (simp add: IntValue_def)
  with neg pct iv scaled[of 5 False] scaled[of 5 True] rfCluster_safeBound[of "IntVal (- 1)"]
  show ?thesis by simp
qed

section \<open>The batch size check\<close>

lemma nsConfNsLoop_step:
  assumes "nsConfNsLoop (e # es) acc = Inr cs"
  shows "\<exists>m s. e = VMap m \<and> map_of m ''name'' = Some (VStr s) \<and> entryName e = s
           \<and> nsConfNsLoop es
                (AList.update s
                   \<lparr>noOfRacksForNamespaces =
                      (case map_of acc s of None \<Rightarrow> 1 | Some old \<Rightarrow> noOfRacksForNamespaces old + 1),
                    replicationFactor = entryRF e, scEnabled = entrySC e\<rparr> acc) = Inr cs"
proof -
  from assms obtain m s sc where e: "e = VMap m" and s: "map_of m ''name'' = Some (VStr s)"
    and sc: "IsNSSCEnabled m = Inr sc"
    and rest: "nsConfNsLoop es
                (AList.update s
                   \<lparr>noOfRacksForNamespaces =
                      (case map_of acc s of None \<Rightarrow> 1 | Some old \<Rightarrow> noOfRacksForNamespaces old + 1),
                    replicationFactor =
                      (case getNamespaceReplicationFactor m of Inl _ \<Rightarrow> 0 | Inr r \<Rightarrow> r),
                    scEnabled = sc\<rparr> acc) = Inr cs"
    by (auto simp: bnd_eq_Inr Let_def getKey_eq_VStr)
  have rf: "(case getNamespaceReplicationFactor m of Inl _ \<Rightarrow> 0 | Inr r \<Rightarrow> r) = entryRF e"
  proof (cases "map_of m ''replication-factor''")
    case None
    with e show ?thesis
      by (simp add: getNamespaceReplicationFactor_def GetIntType_def wrapErr_def entryRF_def)
  next
    case (Some v)
    with e show ?thesis
      by (cases v)
        (simp_all add: getNamespaceReplicationFactor_def GetIntType_def wrapErr_def entryRF_def)
  qed
  from sc e have "sc = entrySC e"
    by (auto simp: IsNSSCEnabled_eq_Inr entrySC_def)
  with e s rf rest show ?thesis by (simp add: entryName_def)
qed

lemma nsConfNsLoop_summary:
  "nsConfNsLoop es acc = Inr cs \<Longrightarrow> map_of cs nm = summaryAfter acc es nm"
proof (induction es arbitrary: acc)
  case Nil
  then show ?case by (simp add: summaryAfter_def entriesNamed_def)
next
  case (Cons e es)
  from nsConfNsLoop_step[OF Cons.prems] obtain m s where e: "e = VMap m"
    and nm: "entryName e = s"
    and rest: "nsConfNsLoop es
                (AList.update s
                   \<lparr>noOfRacksForNamespaces =
                      (case map_of acc s of None \<Rightarrow> 1 | Some old \<Rightarrow> noOfRacksForNamespaces old + 1),
                    replicationFactor = entryRF e, scEnabled = entrySC e\<rparr> acc) = Inr cs"
    by blast
  note ih = Cons.IH[OF rest]
  show ?case
  proof (cases "nm = s")
    case False
    with nm ih show ?thesis
      by (simp add: summaryAfter_def entriesNamed_def update_conv')
  next
    case True
    show ?thesis
    proof (cases "entriesNamed es nm = []")
      case empty: True
      with True nm ih show ?thesis
        by (simp add: summaryAfter_def entriesNamed_def update_conv' split: option.splits)
    next
      case False
      with True nm ih show ?thesis
        by (simp add: summaryAfter_def entriesNamed_def update_conv' split: option.splits)
    qed
  qed
qed

lemma nsConfNsLoop_append:
  "nsConfNsLoop (xs @ ys) acc = bnd (nsConfNsLoop xs acc) (nsConfNsLoop ys)"
proof (induction xs arbitrary: acc)
  case Nil
  show ?case by simp
next
  case (Cons x xs)
  show ?case
    by (simp add: Cons.IH bnd_def Let_def split: sum.splits)
qed

lemma nsConfRacksLoop_entries:
  "nsConfRacksLoop racks acc = Inr cs \<Longrightarrow> nsConfNsLoop (rackEntries racks) acc = Inr cs"
proof (induction racks arbitrary: acc)
  case Nil
  then show ?case by (simp add: rackEntries_def)
next
  case (Cons r racks)
  from Cons.prems obtain nsList mid where
    shape: "getKey (valueOf (AerospikeConfig r)) ''namespaces'' = VList nsList"
    and first: "nsConfNsLoop nsList acc = Inr mid"
    and rest: "nsConfRacksLoop racks mid = Inr cs"
    by (auto simp: bnd_eq_Inr)
  from shape have "namespacesOf (AerospikeConfig r) = nsList" by (simp add: namespacesOf_def)
  with first Cons.IH[OF rest] show ?case
    by (simp add: rackEntries_def nsConfNsLoop_append)
qed

lemma batchNsLoop_ok:
  "batchNsLoop fieldPath rolling names cs = Inr () \<Longrightarrow> (nm, c) \<in> set cs \<Longrightarrow>
   nm \<in> set names \<and> 1 < noOfRacksForNamespaces c \<and> 1 < replicationFactor c
   \<and> (rolling \<or> \<not> scEnabled c)"
  by (induction cs) (auto simp: isNameExist_def split: if_splits)

lemma validateRacksForBatchSize_safe:
  assumes "validateRacksForBatchSize fieldPath rolling rc = Inr ()"
  shows "batchSafe rolling rc"
proof -
  from assms have two: "2 \<le> length (Racks rc)"
    by (auto simp: validateRacksForBatchSize_def split: if_splits)
  from assms obtain cs where cs: "nsConfRacksLoop (Racks rc) [] = Inr cs"
    and loop: "batchNsLoop fieldPath rolling (Namespaces rc) cs = Inr ()"
    by (auto simp: validateRacksForBatchSize_def getNsConfForNamespaces_def bnd_eq_Inr
        split: if_splits)
  note summary = nsConfNsLoop_summary[OF nsConfRacksLoop_entries[OF cs]]
  have "entrySafe rolling (Namespaces rc) (rackEntries (Racks rc)) e"
    if e: "e \<in> set (rackEntries (Racks rc))" for e
  proof -
    from e have ne: "entriesNamed (rackEntries (Racks rc)) (entryName e) \<noteq> []"
      by (auto simp: entriesNamed_def filter_empty_conv)
    with summary[of "entryName e"]
    have "map_of cs (entryName e) =
            Some \<lparr>noOfRacksForNamespaces =
                    int (length (entriesNamed (rackEntries (Racks rc)) (entryName e))),
                  replicationFactor = entryRF (last (entriesNamed (rackEntries (Racks rc)) (entryName e))),
                  scEnabled = entrySC (last (entriesNamed (rackEntries (Racks rc)) (entryName e)))\<rparr>"
      by (simp add: summaryAfter_def)
    from batchNsLoop_ok[OF loop map_of_SomeD[OF this]] show ?thesis
      by (simp add: entrySafe_def)
  qed
  with two show ?thesis by (simp add: batchSafe_def list_all_iff)
qed

lemma validateIntOrStringField_no_panic:
  "validateIntOrStringField E (Some v) path = Inl e \<Longrightarrow> \<exists>f a. e = Reject f a"
  by (cases v)
    (auto simp: validateIntOrStringField_def GetScaledValueFromIntOrPercent_def bnd_def
      split: if_splits option.splits sum.splits)

lemma wrapErr_eq_Inr [simp]: "wrapErr f a r = Inr x \<longleftrightarrow> r = Inr x"
  by (cases r) (auto simp: wrapErr_def split: error.splits)

text \<open>
  What the loops of \<open>validateBatchSize\<close> look at.  A batch size that is not nil passes
  only if the rack configuration of the spec has at least two racks and every namespace
  entry of every rack has its name listed in \<open>rackConfig.namespaces\<close>; of the entries of
  one name the check sees their number and the last of them.  When the status is not
  empty the same holds of the rack configuration of the status.  With fewer than two
  racks in the spec the batch size is rejected whatever else the descriptor holds.
\<close>

lemma validateBatchSize_looks_at:
  "(validateBatchSize E c (Some bs) rollingUpdateBatch = Inr () \<longrightarrow>
      batchSafe rollingUpdateBatch (SpecRackConfig (Spec c))
      \<and> (StatusAerospikeConfig (Status c) \<noteq> None \<longrightarrow>
           batchSafe rollingUpdateBatch (StatusRackConfig (Status c))))
   \<and> (length (Racks (SpecRackConfig (Spec c))) < 2 \<longrightarrow>
        (\<exists>f a. validateBatchSize E c (Some bs) rollingUpdateBatch = Inl (Reject f a)))"
proof -
  let ?path = "if rollingUpdateBatch then ''spec.rackConfig.rollingUpdateBatchSize''
               else ''spec.rackConfig.scaleDownBatchSize''"
  have ok: "batchSafe rollingUpdateBatch (SpecRackConfig (Spec c))
      \<and> (StatusAerospikeConfig (Status c) \<noteq> None \<longrightarrow>
           batchSafe rollingUpdateBatch (StatusRackConfig (Status c)))"
    if "validateBatchSize E c (Some bs) rollingUpdateBatch = Inr ()"
  proof -
    from that have spec: "validateRacksForBatchSize ?path rollingUpdateBatch (SpecRackConfig (Spec c)) = Inr ()"
      and status: "StatusAerospikeConfig (Status c) \<noteq> None \<longrightarrow>
        validateRacksForBatchSize ?path rollingUpdateBatch (StatusRackConfig (Status c)) = Inr ()"
      by (auto simp: validateBatchSize_def Let_def bnd_eq_Inr split: if_splits)
    from validateRacksForBatchSize_safe[OF spec] status validateRacksForBatchSize_safe
    show ?thesis by blast
  qed
  have few: "\<exists>f a. validateBatchSize E c (Some bs) rollingUpdateBatch = Inl (Reject f a)"
    if "length (Racks (SpecRackConfig (Spec c))) < 2"
  proof (cases "validateIntOrStringField E (Some bs) ?path")
    case (Inl e)
    with validateIntOrStringField_no_panic[OF Inl] show ?thesis
      by (auto simp: validateBatchSize_def Let_def)
  next
    case (Inr u)
    with that show ?thesis
      by (simp add: validateBatchSize_def Let_def validateRacksForBatchSize_def)
  qed
  from ok few show ?thesis by blast
qed

lemma batchCluster_fields:
  "SpecRackConfig (Spec (batchCluster rs nss)) = mkRackConfig rs nss"
  "StatusAerospikeConfig (Status (batchCluster rs nss)) = None"
  "Racks (mkRackConfig rs nss) = rs"
  "Namespaces (mkRackConfig rs nss) = nss"
  by (simp_all add: batchCluster_def mkCluster_def mkRackConfig_def)

lemma batchRack_loop:
  "nsConfNsLoop [nsEntry nm [(''replication-factor'', VNum rf), memoryEngine]] acc =
     Inr (AList.update nm
            \<lparr>noOfRacksForNamespaces =
               (case map_of acc nm of None \<Rightarrow> 1 | Some old \<Rightarrow> noOfRacksForNamespaces old + 1),
             replicationFactor = rf, scEnabled = False\<rparr> acc)"
  by (simp add: nsEntry_def memoryEngine_def getKey_def IsNSSCEnabled_def
      getNamespaceReplicationFactor_def GetIntType_def wrapErr_def)

lemma batchRack_namespaces:
  "asList (getKey (valueOf (AerospikeConfig (batchRack i nm rf))) ''namespaces'')
     = Inr [nsEntry nm [(''replication-factor'', VNum rf), memoryEngine]]"
  by (simp add: batchRack_def mkRack_def mkConfig_def valueOf_def getKey_def)

lemma batch_two_racks:
  "validateBatchSize sampleEnv
     (batchCluster [batchRack 1 ''test'' r1, batchRack 2 ''test'' r2] [''test''])
     (Some (IntVal 1)) True
   = (if 1 < r2 then Inr ()
      else Inl (Reject ''can not use %s when namespace `%s` is configured with replication-factor 1''
                  [AStr ''spec.rackConfig.rollingUpdateBatchSize'', AStr ''test'']))"
  by (simp add: validateBatchSize_def validateIntOrStringField_count batchCluster_fields
      validateRacksForBatchSize_def getNsConfForNamespaces_def batchRack_namespaces
      batchRack_loop isNameExist_def del: nsConfNsLoop.simps)


lemma twiceRack_namespaces:
  "asList (getKey (valueOf (AerospikeConfig (twiceRack i nm))) ''namespaces'')
     = Inr [nsEntry nm [memoryEngine], nsEntry nm [memoryEngine]]"
  by (simp add: twiceRack_def mkRack_def mkConfig_def valueOf_def getKey_def)

lemma twiceRack_step:
  "nsConfNsLoop (nsEntry nm [memoryEngine] # es) acc =
     nsConfNsLoop es
       (AList.update nm
            \<lparr>noOfRacksForNamespaces =
               (case map_of acc nm of None \<Rightarrow> 1 | Some old \<Rightarrow> noOfRacksForNamespaces old + 1),
             replicationFactor = 2, scEnabled = False\<rparr> acc)"
  by (simp add: nsEntry_def memoryEngine_def getKey_def IsNSSCEnabled_def
      getNamespaceReplicationFactor_def GetIntType_def wrapErr_def)

lemma flagRack_namespaces:
  "asList (getKey (valueOf (AerospikeConfig (flagRack i nm sc))) ''namespaces'')
     = Inr [nsEntry nm [(''replication-factor'', VNum 2), memoryEngine,
                        (''strong-consistency'', VBool sc)]]"
  by (simp add: flagRack_def mkRack_def mkConfig_def valueOf_def getKey_def)

lemma flagRack_loop:
  "nsConfNsLoop [nsEntry nm [(''replication-factor'', VNum 2), memoryEngine,
                             (''strong-consistency'', VBool sc)]] acc =
     Inr (AList.update nm
            \<lparr>noOfRacksForNamespaces =
               (case map_of acc nm of None \<Rightarrow> 1 | Some old \<Rightarrow> noOfRacksForNamespaces old + 1),
             replicationFactor = 2, scEnabled = sc\<rparr> acc)"
  by (simp add: nsEntry_def memoryEngine_def getKey_def IsNSSCEnabled_def
      getNamespaceReplicationFactor_def GetIntType_def wrapErr_def)

lemma flag_two_racks:
  "validateBatchSize sampleEnv
     (batchCluster [flagRack 1 ''test'' s1, flagRack 2 ''test'' s2] [''test''])
     (Some (IntVal 1)) False
   = (if s2 then
        Inl (Reject ''can not use %s when namespace `%s` is configured with Strong Consistency''
               [AStr ''spec.rackConfig.scaleDownBatchSize'', AStr ''test''])
      else Inr ())"
  by (simp add: validateBatchSize_def validateIntOrStringField_count batchCluster_fields
      validateRacksForBatchSize_def getNsConfForNamespaces_def flagRack_namespaces
      flagRack_loop isNameExist_def del: nsConfNsLoop.simps)

text \<open>
  C3.  The batch size check is to refuse a batch size when a namespace of the racks has
  replication factor 1, is present in one rack only or, for the scale-down batch size,
  has strong consistency.  On the descriptors below, each with two racks, every
  namespace rack-enabled and no status, \<open>validateBatchSize\<close> does not:

  \<^item> namespace \<open>test\<close> has replication factor 1 in rack 1 and 2 in rack 2, and the
    rolling-update batch size is accepted; with the two factors the other way round it
    is rejected for the replication factor 1;
  \<^item> rack 1 lists \<open>test\<close> twice and rack 2 lists \<open>bar\<close> twice, so that \<open>test\<close> is in one
    rack only, and the batch size is accepted; when rack 1 lists \<open>test\<close> once and rack 2
    lists no namespace it is rejected for the single rack;
  \<^item> \<open>test\<close> has strong consistency in rack 1 and not in rack 2, and the scale-down
    batch size is accepted; with the flags the other way round it is rejected for the
    strong consistency.
\<close>

theorem validateBatchSize_accepts_unsafe_racks:
  "validateBatchSize sampleEnv
     (batchCluster [batchRack 1 ''test'' 1, batchRack 2 ''test'' 2] [''test''])
     (Some (IntVal 1)) True = Inr ()
   \<and> entryName (hd (rackEntries [batchRack 1 ''test'' 1, batchRack 2 ''test'' 2])) = ''test''
   \<and> entryRF (hd (rackEntries [batchRack 1 ''test'' 1, batchRack 2 ''test'' 2])) = 1
   \<and> validateBatchSize sampleEnv
       (batchCluster [batchRack 1 ''test'' 2, batchRack 2 ''test'' 1] [''test''])
       (Some (IntVal 1)) True
      = Inl (Reject ''can not use %s when namespace `%s` is configured with replication-factor 1''
               [AStr ''spec.rackConfig.rollingUpdateBatchSize'', AStr ''test''])
   \<and> validateBatchSize sampleEnv
       (batchCluster [twiceRack 1 ''test'', twiceRack 2 ''bar''] [''test'', ''bar''])
       (Some (IntVal 1)) True = Inr ()
   \<and> length (racksListing [twiceRack 1 ''test'', twiceRack 2 ''bar''] ''test'') = 1
   \<and> validateBatchSize sampleEnv
       (batchCluster [batchRack 1 ''test'' 2, mkRack 2 []] [''test''])
       (Some (IntVal 1)) True
      = Inl (Reject ''can not use %s when namespace `%s` is configured in only one rack''
               [AStr ''spec.rackConfig.rollingUpdateBatchSize'', AStr ''test''])
   \<and> validateBatchSize sampleEnv
       (batchCluster [flagRack 1 ''test'' True, flagRack 2 ''test'' False] [''test''])
       (Some (IntVal 1)) False = Inr ()
   \<and> entryName (hd (rackEntries [flagRack 1 ''test'' True, flagRack 2 ''test'' False])) = ''test''
   \<and> entrySC (hd (rackEntries [flagRack 1 ''test'' True, flagRack 2 ''test'' False]))
   \<and> validateBatchSize sampleEnv
       (batchCluster [flagRack 1 ''test'' False, flagRack 2 ''test'' True] [''test''])
       (Some (IntVal 1)) False
      = Inl (Reject ''can not use %s when namespace `%s` is configured with Strong Consistency''
               [AStr ''spec.rackConfig.scaleDownBatchSize'', AStr ''test''])"
proof -
  have a: "validateBatchSize sampleEnv
     (batchCluster [batchRack 1 ''test'' 1, batchRack 2 ''test'' 2] [''test''])
     (Some (IntVal 1)) True = Inr ()"
    by (simp add: batch_two_racks)
  have a': "validateBatchSize sampleEnv
       (batchCluster [batchRack 1 ''test'' 2, batchRack 2 ''test'' 1] [''test''])
       (Some (IntVal 1)) True
      = Inl (Reject ''can not use %s when namespace `%s` is configured with replication-factor 1''
               [AStr ''spec.rackConfig.rollingUpdateBatchSize'', AStr ''test''])"
    by (simp add: batch_two_racks)
  have b: "entryName (hd (rackEntries [batchRack 1 ''test'' 1, batchRack 2 ''test'' 2])) = ''test''"
          "entryRF (hd (rackEntries [batchRack 1 ''test'' 1, batchRack 2 ''test'' 2])) = 1"
    by (simp_all add: rackEntries_def namespacesOf_def batchRack_def mkRack_def mkConfig_def
        valueOf_def getKey_def nsEntry_def memoryEngine_def entryName_def entryRF_def)
  have c: "validateBatchSize sampleEnv
       (batchCluster [twiceRack 1 ''test'', twiceRack 2 ''bar''] [''test'', ''bar''])
       (Some (IntVal 1)) True = Inr ()"
    by (simp add: validateBatchSize_def validateIntOrStringField_count batchCluster_fields
      validateRacksForBatchSize_def getNsConfForNamespaces_def twiceRack_namespaces
      twiceRack_step isNameExist_def del: nsConfNsLoop.simps(2))
  have none: "asList (getKey (valueOf (AerospikeConfig (mkRack 2 []))) ''namespaces'') = Inr []"
    by (simp add: mkRack_def mkConfig_def valueOf_def getKey_def)
  have c': "validateBatchSize sampleEnv
       (batchCluster [batchRack 1 ''test'' 2, mkRack 2 []] [''test''])
       (Some (IntVal 1)) True
      = Inl (Reject ''can not use %s when namespace `%s` is configured in only one rack''
               [AStr ''spec.rackConfig.rollingUpdateBatchSize'', AStr ''test''])"
    by (simp add: validateBatchSize_def validateIntOrStringField_count batchCluster_fields
      validateRacksForBatchSize_def getNsConfForNamespaces_def batchRack_namespaces none
      batchRack_loop isNameExist_def del: nsConfNsLoop.simps(2))
  have d: "length (racksListing [twiceRack 1 ''test'', twiceRack 2 ''bar''] ''test'') = 1"
    by (simp add: racksListing_def namespacesOf_def twiceRack_def mkRack_def mkConfig_def
        valueOf_def getKey_def nsEntry_def memoryEngine_def entryName_def)
  have e: "validateBatchSize sampleEnv
       (batchCluster [flagRack 1 ''test'' True, flagRack 2 ''test'' False] [''test''])
       (Some (IntVal 1)) False = Inr ()"
    by (simp add: flag_two_racks)
  have e': "validateBatchSize sampleEnv
       (batchCluster [flagRack 1 ''test'' False, flagRack 2 ''test'' True] [''test''])
       (Some (IntVal 1)) False
      = Inl (Reject ''can not use %s when namespace `%s` is configured with Strong Consistency''
               [AStr ''spec.rackConfig.scaleDownBatchSize'', AStr ''test''])"
    by (simp add: flag_two_racks)
  have f: "entryName (hd (rackEntries [flagRack 1 ''test'' True, flagRack 2 ''test'' False])) = ''test''"
          "entrySC (hd (rackEntries [flagRack 1 ''test'' True, flagRack 2 ''test'' False]))"
    by (simp_all add: rackEntries_def namespacesOf_def flagRack_def mkRack_def mkConfig_def
        valueOf_def getKey_def nsEntry_def memoryEngine_def entryName_def entrySC_def)
  from a a' b c c' d e e' f show ?thesis by simp
qed
section \<open>Device paths that no volume declares\<close>

lemma bnd_eq_Inl: "bnd m f = Inl e \<longleftrightarrow> m = Inl e \<or> (\<exists>x. m = Inr x \<and> f x = Inl e)"
  by (cases m) simp_all

lemma deviceTokensLoop_ok:
  "deviceTokensLoop storage blk toks = Inr () \<Longrightarrow> set toks \<subseteq> set blk"
  by (induction toks) (auto simp: ContainsString_def split: if_splits)

lemma devicesLoop_ok:
  "devicesLoop E storage blk ds = Inr () \<Longrightarrow> VStr s \<in> set ds \<Longrightarrow>
   set (Fields E (TrimSpace E s)) \<subseteq> set blk"
proof (induction ds)
  case Nil
  then show ?case by simp
next
  case (Cons d ds)
  from Cons.prems(1) obtain s' where d: "d = VStr s'"
    and toks: "deviceTokensLoop storage blk (Fields E (TrimSpace E s')) = Inr ()"
    and rest: "devicesLoop E storage blk ds = Inr ()"
    by (auto simp: Let_def bnd_eq_Inr split: val.splits if_splits)
  show ?case
  proof (cases "s = s'")
    case True
    with deviceTokensLoop_ok[OF toks] show ?thesis by simp
  next
    case False
    with Cons.prems(2) d have "VStr s \<in> set ds" by simp
    from Cons.IH[OF rest this] show ?thesis .
  qed
qed

lemma namespaceStorageCheck_devices:
  assumes "namespaceStorageCheck E storage blk fs clSize (VMap ns) = Inr ()"
    and "map_of ns ''storage-engine'' = Some (VMap se)"
    and "map_of se ''type'' \<noteq> Some (VStr ''memory'')"
    and "map_of se ''devices'' = Some (VList ds)"
  shows "devicesLoop E storage blk ds = Inr ()"
  using assms
  by (auto simp: namespaceStorageCheck_def namespaceDevicesCheck_def isInMemoryNamespace_def
      bnd_eq_Inr split: if_splits)

lemma namespaceStorageLoop_ok:
  "namespaceStorageLoop E storage blk fs clSize nss = Inr () \<Longrightarrow> e \<in> set nss \<Longrightarrow>
   namespaceStorageCheck E storage blk fs clSize e = Inr ()"
  by (induction nss) (auto simp: bnd_eq_Inr)

lemma validateNamespaceConfig_loop:
  assumes "validateNamespaceConfig E nss storage clSize = Inr ()"
    and "getAerospikeStorageList E storage True = Inr (blk, fs)"
  shows "namespaceStorageLoop E storage blk fs clSize nss = Inr ()"
  using assms by (auto simp: validateNamespaceConfig_def bnd_eq_Inr split: if_splits)

lemma namesDevicePath_Panic [simp]: "namesDevicePath storage blk (Panic p)"
  by (simp add: namesDevicePath_def)

lemma asMap_err: "asMap v = Inl e \<Longrightarrow> namesDevicePath storage blk e"
  by (cases v) (auto simp: asMap_def)

lemma asList_err: "asList v = Inl e \<Longrightarrow> namesDevicePath storage blk e"
  by (cases v) (auto simp: asList_def)

lemma asString_err: "asString v = Inl e \<Longrightarrow> namesDevicePath storage blk e"
  by (cases v) (auto simp: asString_def)

lemma asBool_err: "asBool v = Inl e \<Longrightarrow> namesDevicePath storage blk e"
  by (cases v) (auto simp: asBool_def)

lemma IsNSSCEnabled_err: "IsNSSCEnabled m = Inl e \<Longrightarrow> namesDevicePath storage blk e"
  by (auto simp: IsNSSCEnabled_def split: option.splits dest: asBool_err)

lemma isInMemoryNamespace_err: "isInMemoryNamespace m = Inl e \<Longrightarrow> namesDevicePath storage blk e"
  by (auto simp: isInMemoryNamespace_def bnd_eq_Inl split: option.splits dest: asMap_err)

lemma isDeviceOrPmemNamespace_err:
  "isDeviceOrPmemNamespace m = Inl e \<Longrightarrow> namesDevicePath storage blk e"
  by (auto simp: isDeviceOrPmemNamespace_def bnd_eq_Inl split: option.splits dest: asMap_err)

lemma isShMemIndexTypeNamespace_err:
  "isShMemIndexTypeNamespace m = Inl e \<Longrightarrow> namesDevicePath storage blk e"
  by (auto simp: isShMemIndexTypeNamespace_def bnd_eq_Inl split: option.splits dest: asMap_err)

lemma getNamespaceReplicationFactor_err:
  "getNamespaceReplicationFactor m = Inl e \<Longrightarrow> namesDevicePath storage blk e"
  by (auto simp: getNamespaceReplicationFactor_def GetIntType_def wrapErr_def Let_def
      namesDevicePath_def devicePathMessage_def split: option.splits val.splits)

lemma validateNamespaceReplicationFactor_err:
  "validateNamespaceReplicationFactor m clSize = Inl e \<Longrightarrow> namesDevicePath storage blk e"
  by (auto simp: validateNamespaceReplicationFactor_def bnd_eq_Inl namesDevicePath_def
      devicePathMessage_def split: if_splits
      dest: getNamespaceReplicationFactor_err[of _ _ storage blk] IsNSSCEnabled_err[of _ _ storage blk])

lemma validateMRTFields_err:
  "validateMRTFields m = Inl e \<Longrightarrow> namesDevicePath storage blk e"
  by (auto simp: validateMRTFields_def bnd_eq_Inl namesDevicePath_def devicePathMessage_def Let_def
      split: if_splits dest: IsNSSCEnabled_err[of _ _ storage blk])

lemma deviceTokensLoop_err:
  "deviceTokensLoop storage blk toks = Inl e \<Longrightarrow> namesDevicePath storage blk e"
  by (induction toks) (auto simp: ContainsString_def namesDevicePath_def split: if_splits)

lemma namesDevicePath_other:
  "f \<noteq> devicePathMessage \<Longrightarrow> namesDevicePath storage blk (Reject f a)"
  by (simp add: namesDevicePath_def)

lemma devicesLoop_err:
  "devicesLoop E storage blk ds = Inl e \<Longrightarrow> namesDevicePath storage blk e"
proof (induction ds)
  case Nil
  then show ?case by simp
next
  case (Cons d ds)
  show ?case
  proof (cases d)
    case (VStr s)
    with Cons show ?thesis
      by (auto simp: Let_def bnd_eq_Inl devicePathMessage_def split: if_splits
          intro!: namesDevicePath_other dest: deviceTokensLoop_err)
  qed (use Cons.prems in \<open>auto simp: devicePathMessage_def intro!: namesDevicePath_other\<close>)
qed

lemma fileTokensLoop_err:
  "fileTokensLoop E storage fs toks = Inl e \<Longrightarrow> namesDevicePath storage blk e"
  by (induction toks)
    (auto simp: Let_def devicePathMessage_def split: if_splits intro!: namesDevicePath_other)

lemma filesLoop_err:
  "filesLoop E storage fs ds = Inl e \<Longrightarrow> namesDevicePath storage blk e"
proof (induction ds)
  case Nil
  then show ?case by simp
next
  case (Cons d ds)
  show ?case
  proof (cases d)
    case (VStr s)
    with Cons show ?thesis
      by (auto simp: Let_def bnd_eq_Inl devicePathMessage_def split: if_splits
          intro!: namesDevicePath_other dest: fileTokensLoop_err)
  qed (use Cons.prems in \<open>auto simp: devicePathMessage_def intro!: namesDevicePath_other\<close>)
qed

lemma namespaceDevicesCheck_err:
  "namespaceDevicesCheck E storage blk nsStorage se = Inl e \<Longrightarrow> namesDevicePath storage blk e"
  by (auto simp: namespaceDevicesCheck_def devicePathMessage_def
      split: option.splits val.splits if_splits
      intro!: namesDevicePath_other dest: devicesLoop_err)

lemma namespaceFilesCheck_err:
  "namespaceFilesCheck E storage fs nsStorage se = Inl e \<Longrightarrow> namesDevicePath storage blk e"
  by (auto simp: namespaceFilesCheck_def devicePathMessage_def
      split: option.splits val.splits if_splits
      intro!: namesDevicePath_other dest: filesLoop_err)

lemma namespaceStorageCheck_err:
  assumes "namespaceStorageCheck E storage blk fs clSize nsv = Inl e"
  shows "namesDevicePath storage blk e"
proof (cases nsv)
  case (VMap ns)
  show ?thesis
  proof (cases "map_of ns ''storage-engine''")
    case None
    with assms VMap show ?thesis
      by (auto simp: namespaceStorageCheck_def bnd_eq_Inl devicePathMessage_def
          intro!: namesDevicePath_other
          dest: validateNamespaceReplicationFactor_err[where storage = storage and blk = blk]
            validateMRTFields_err[where storage = storage and blk = blk])
  next
    case (Some nsStorage)
    with assms VMap show ?thesis
      by (auto simp: namespaceStorageCheck_def bnd_eq_Inl devicePathMessage_def
          split: if_splits
          intro!: namesDevicePath_other
          dest: validateNamespaceReplicationFactor_err[where storage = storage and blk = blk]
            validateMRTFields_err[where storage = storage and blk = blk]
            isInMemoryNamespace_err[where storage = storage and blk = blk]
            isDeviceOrPmemNamespace_err[where storage = storage and blk = blk]
            asMap_err[where storage = storage and blk = blk]
            namespaceDevicesCheck_err namespaceFilesCheck_err[where blk = blk])
  qed
qed (use assms in \<open>auto simp: namespaceStorageCheck_def devicePathMessage_def
       intro!: namesDevicePath_other\<close>)

lemma namespaceStorageLoop_err:
  "namespaceStorageLoop E storage blk fs clSize nss = Inl e \<Longrightarrow> namesDevicePath storage blk e"
  by (induction nss) (auto simp: bnd_eq_Inl dest: namespaceStorageCheck_err)

lemma storagePathsLoop_err:
  "storagePathsLoop f namespace ds pathList = Inl e \<Longrightarrow> f \<noteq> devicePathMessage \<Longrightarrow>
   namesDevicePath storage blk e"
  by (induction ds arbitrary: pathList)
    (auto simp: bnd_eq_Inl split: option.splits intro!: namesDevicePath_other dest: asString_err)

lemma bnd_InlE:
  assumes "bnd m f = Inl e"
  obtains "m = Inl e" | x where "m = Inr x" "f x = Inl e"
  using assms by (cases m) simp_all

lemma storagePathsOf_err:
  assumes "(case map_of se k of
              None \<Rightarrow> Inr t
            | Some v \<Rightarrow> bnd (asList v) (\<lambda>ds. storagePathsLoop f nm ds t)) = Inl e"
    and "f \<noteq> devicePathMessage"
  shows "namesDevicePath storage blk e"
proof (cases "map_of se k")
  case None
  with assms show ?thesis by simp
next
  case (Some v)
  with assms(1) have "bnd (asList v) (\<lambda>ds. storagePathsLoop f nm ds t) = Inl e" by simp
  then show ?thesis
  proof (cases rule: bnd_InlE)
    case 1
    then show ?thesis by (rule asList_err)
  next
    case (2 ds)
    from storagePathsLoop_err[OF 2(2) assms(2)] show ?thesis .
  qed
qed

lemma storageEngineDeviceListLoop_err:
  "storageEngineDeviceListLoop nss tables = Inl e \<Longrightarrow> namesDevicePath storage blk e"
proof (induction nss arbitrary: tables)
  case Nil
  then show ?case by simp
next
  case (Cons a nss)
  have d: "''device %s is already being referenced in multiple namespaces (%s, %s)'' \<noteq> devicePathMessage"
    and f: "''file %s is already being referenced in multiple namespaces (%s, %s)'' \<noteq> devicePathMessage"
    by (simp_all add: devicePathMessage_def)
  from Cons.prems show ?case
    apply simp
    apply (erule bnd_InlE, erule asMap_err)
    apply (erule bnd_InlE, erule asString_err)
    apply (erule bnd_InlE, erule asMap_err)
    apply (erule bnd_InlE, erule storagePathsOf_err, rule d)
    apply (erule bnd_InlE, erule storagePathsOf_err, rule f)
    apply (erule Cons.IH)
    done
qed

lemma mountsLoop_err:
  "mountsLoop storage fs ms = Inl e \<Longrightarrow> namesDevicePath storage blk e"
proof (induction ms)
  case Nil
  then show ?case by simp
next
  case (Cons m ms)
  then show ?case
    by (cases m)
      (auto simp: devicePathMessage_def split: if_splits intro!: namesDevicePath_other)
qed

lemma mountsValue_err:
  assumes "(case mounts of
              VNil \<Rightarrow> Inl (Reject ''namespace index-type mounts cannot be nil %v'' [AVal ix])
            | VList ms \<Rightarrow>
                if length ms = 0 then Inl (Reject ''no mounts for namespace index-type %v'' [AVal ix])
                else mountsLoop storage fs ms
            | _ \<Rightarrow> Inl (Reject ''namespace index-type mounts format not valid %v'' [AVal ix])) = Inl e"
  shows "namesDevicePath storage blk e"
  using assms
  by (cases mounts)
    (auto simp: devicePathMessage_def split: if_splits intro!: namesDevicePath_other
      dest: mountsLoop_err)

lemma namespaceIndexCheck_err:
  assumes "namespaceIndexCheck storage fs nsv = Inl e"
  shows "namesDevicePath storage blk e"
proof (cases nsv)
  case (VMap ns)
  show ?thesis
  proof (cases "isShMemIndexTypeNamespace ns")
    case (Inl e')
    with assms VMap have "e = e'" by (simp add: namespaceIndexCheck_def)
    with isShMemIndexTypeNamespace_err[OF Inl] show ?thesis by simp
  next
    case (Inr shmem)
    show ?thesis
    proof (cases "map_of ns ''index-type''")
      case None
      with assms VMap Inr show ?thesis
        by (simp add: namespaceIndexCheck_def split: if_splits)
    next
      case (Some ix)
      show ?thesis
      proof (cases "asMap ix")
        case bad: (Inl e')
        with assms VMap Inr Some have "e = e'"
          by (simp add: namespaceIndexCheck_def split: if_splits)
        with asMap_err[OF bad] show ?thesis by simp
      next
        case good: (Inr indexMap)
        show ?thesis
        proof (cases "map_of indexMap ''mounts''")
          case None
          with assms VMap Inr Some good show ?thesis
            by (simp add: namespaceIndexCheck_def split: if_splits)
        next
          case mounts: (Some mv)
          with assms VMap Inr Some good show ?thesis
            by (auto simp: namespaceIndexCheck_def split: if_splits dest: mountsValue_err)
        qed
      qed
    qed
  qed
qed (use assms in \<open>auto simp: namespaceIndexCheck_def devicePathMessage_def
       intro!: namesDevicePath_other\<close>)

lemma namespaceIndexLoop_err:
  "namespaceIndexLoop storage fs nss = Inl e \<Longrightarrow> namesDevicePath storage blk e"
  by (induction nss) (auto simp: bnd_eq_Inl dest: namespaceIndexCheck_err)

lemma validateNamespaceConfig_err:
  assumes "validateNamespaceConfig E nss storage clSize = Inl e"
    and "getAerospikeStorageList E storage True = Inr (blk, fs)"
  shows "namesDevicePath storage blk e"
  using assms
  by (auto simp: validateNamespaceConfig_def bnd_eq_Inl validateStorageEngineDeviceList_def
      devicePathMessage_def split: if_splits
      intro!: namesDevicePath_other
      dest: namespaceStorageLoop_err storageEngineDeviceListLoop_err namespaceIndexLoop_err)

lemma validateAerospikeConfig_namespaces:
  assumes "validateAerospikeConfig E c configSpec storage clSize = Inr ()"
    and "Value configSpec = Some config"
    and "map_of config ''namespaces'' = Some (VList nss)"
  shows "validateNamespaceConfig E nss storage clSize = Inr ()"
  using assms
  by (auto simp: validateAerospikeConfig_def bnd_eq_Inr split: val.splits if_splits)

text \<open>
  C7, as amended.  Let the block device paths of the storage spec be \<open>blk\<close>, and let the
  namespace list hold a device or pmem namespace with a device entry one of whose
  whitespace-separated tokens is not in \<open>blk\<close>.  Then the validation of the namespaces
  does not accept the list, nor does the validation of a configuration that holds it; and
  whenever the rejection carries the message for a device path that is not found, its
  arguments are such a path and the storage spec: the message names the path and the
  storage configuration, not the namespace.
\<close>

theorem undeclared_device_rejected:
  assumes "getAerospikeStorageList E storage True = Inr (blk, fs)"
    and "VMap ns \<in> set nss"
    and "map_of ns ''storage-engine'' = Some (VMap se)"
    and "map_of se ''type'' = Some (VStr ''device'') \<or> map_of se ''type'' = Some (VStr ''pmem'')"
    and "map_of se ''devices'' = Some (VList ds)"
    and "VStr s \<in> set ds"
    and "tok \<in> set (Fields E (TrimSpace E s))"
    and "tok \<notin> set blk"
  shows "validateNamespaceConfig E nss storage clSize \<noteq> Inr ()
       \<and> (Value configSpec = Some config \<and> map_of config ''namespaces'' = Some (VList nss) \<longrightarrow>
            validateAerospikeConfig E c configSpec storage clSize \<noteq> Inr ())
       \<and> (\<forall>args. validateNamespaceConfig E nss storage clSize = Inl (Reject devicePathMessage args) \<longrightarrow>
            (\<exists>dev. dev \<notin> set blk \<and> args = [AStr dev, AStorage storage]))"
proof -
  have no: "validateNamespaceConfig E nss storage clSize \<noteq> Inr ()"
  proof
    assume ok: "validateNamespaceConfig E nss storage clSize = Inr ()"
    from namespaceStorageLoop_ok[OF validateNamespaceConfig_loop[OF ok assms(1)] assms(2)]
    have one: "namespaceStorageCheck E storage blk fs clSize (VMap ns) = Inr ()" .
    from assms(4) have "map_of se ''type'' \<noteq> Some (VStr ''memory'')" by auto
    from devicesLoop_ok[OF namespaceStorageCheck_devices[OF one assms(3) this assms(5)] assms(6)]
      assms(7) assms(8)
    show False by auto
  qed
  have msg: "\<exists>dev. dev \<notin> set blk \<and> args = [AStr dev, AStorage storage]"
    if "validateNamespaceConfig E nss storage clSize = Inl (Reject devicePathMessage args)" for args
  proof -
    from validateNamespaceConfig_err[OF that assms(1)] show ?thesis
      by (simp add: namesDevicePath_def)
  qed
  from no msg validateAerospikeConfig_namespaces[of E c configSpec storage clSize config nss]
  show ?thesis by blast
qed

lemma blockStorage_lists:
  "getAerospikeStorageList sampleEnv blockStorage True = Inr ([''/dev/sda''], [])"
  by (simp add: sampleEnv_def sampleStorageList_def blockStorage_def)

lemma sample_strings:
  "TrimSpace sampleEnv ''/dev/sda /dev/sdx'' = ''/dev/sda /dev/sdx''"
  "Fields sampleEnv ''/dev/sda /dev/sdx'' = [''/dev/sda'', ''/dev/sdx'']"
  "TrimSpace sampleEnv ''/dev/sdx'' = ''/dev/sdx''"
  "Fields sampleEnv ''/dev/sdx'' = [''/dev/sdx'']"
  by (simp_all add: sampleEnv_def)

lemma unlisted_device_result:
  "validateNamespaceConfig sampleEnv [nsEntry nm [deviceEngine [''/dev/sdx'']]] blockStorage 2
     = Inl (Reject devicePathMessage [AStr ''/dev/sdx'', AStorage blockStorage])"
  by (simp add: validateNamespaceConfig_def blockStorage_lists namespaceStorageCheck_def
      validateNamespaceReplicationFactor_def validateMRTFields_def isMRTFieldSet_def
      namespaceDevicesCheck_def sample_strings nsEntry_def deviceEngine_def helper_defs
      devicePathMessage_def)

theorem undeclared_device_rejected_witness:
  "getAerospikeStorageList sampleEnv blockStorage True = Inr ([''/dev/sda''], [])
   \<and> ''/dev/sdx'' \<in> set (Fields sampleEnv (TrimSpace sampleEnv ''/dev/sda /dev/sdx''))
   \<and> ''/dev/sdx'' \<notin> set [''/dev/sda'']
   \<and> validateNamespaceConfig sampleEnv [nsEntry ''test'' [deviceEngine [''/dev/sda /dev/sdx'']]]
        blockStorage 2 \<noteq> Inr ()"
proof -
  have a: "VMap [(''name'', VStr ''test''), deviceEngine [''/dev/sda /dev/sdx'']]
             \<in> set [nsEntry ''test'' [deviceEngine [''/dev/sda /dev/sdx'']]]"
    by (simp add: nsEntry_def)
  have b: "map_of [(''name'', VStr ''test''), deviceEngine [''/dev/sda /dev/sdx'']] ''storage-engine''
             = Some (VMap [(''devices'', VList [VStr ''/dev/sda /dev/sdx'']), (''type'', VStr ''device'')])"
    by (simp add: deviceEngine_def)
  have c: "map_of [(''devices'', VList [VStr ''/dev/sda /dev/sdx'']), (''type'', VStr ''device'')] ''type''
             = Some (VStr ''device'')
           \<or> map_of [(''devices'', VList [VStr ''/dev/sda /dev/sdx'']), (''type'', VStr ''device'')] ''type''
             = Some (VStr ''pmem'')"
    by simp
  have d: "map_of [(''devices'', VList [VStr ''/dev/sda /dev/sdx'']), (''type'', VStr ''device'')] ''devices''
             = Some (VList [VStr ''/dev/sda /dev/sdx''])"
    by simp
  have e: "VStr ''/dev/sda /dev/sdx'' \<in> set [VStr ''/dev/sda /dev/sdx'']" by simp
  have f: "''/dev/sdx'' \<in> set (Fields sampleEnv (TrimSpace sampleEnv ''/dev/sda /dev/sdx''))"
    by (simp add: sample_strings)
  have g: "''/dev/sdx'' \<notin> set [''/dev/sda'']" by simp
  from undeclared_device_rejected[OF blockStorage_lists a b c d e f g, of 2]
  have "validateNamespaceConfig sampleEnv [nsEntry ''test'' [deviceEngine [''/dev/sda /dev/sdx'']]]
        blockStorage 2 \<noteq> Inr ()"
    by blast
  with blockStorage_lists f g show ?thesis by blast
qed

text \<open>
  The claim as first stated fails on the message: the rejection of an undeclared device
  path is the same error for namespace \<open>test\<close> and for namespace \<open>bar\<close>.  Its arguments
  are the path and the storage spec; the namespace is not among them.
\<close>

theorem undeclared_device_counterexample:
  "validateNamespaceConfig sampleEnv [nsEntry ''test'' [deviceEngine [''/dev/sdx'']]] blockStorage 2
     = Inl (Reject devicePathMessage [AStr ''/dev/sdx'', AStorage blockStorage])
   \<and> validateNamespaceConfig sampleEnv [nsEntry ''bar'' [deviceEngine [''/dev/sdx'']]] blockStorage 2
     = Inl (Reject devicePathMessage [AStr ''/dev/sdx'', AStorage blockStorage])"
  by (simp add: unlisted_device_result)

section \<open>A missing heartbeat section\<close>

lemma serviceOnly_structure:
  "validateAerospikeConfig sampleEnv pdbOffCluster serviceOnlyConfig \<lparr>Volumes = []\<rparr> 2 = Inr ()"
proof -
  have net: "validateNetworkConfig sampleEnv pdbOffCluster [(''service'', VMap [(''port'', VNum 3000)])]
               = Inr ()"
    by (simp add: validateNetworkConfig_def validateTLSClientNames_def
        ValidateTLSAuthenticateClient_def networkConnectionTypes_def validateNetworkConnection_def
        HasPrefix_def)
  have lists: "getAerospikeStorageList sampleEnv \<lparr>Volumes = []\<rparr> True = Inr ([], [])"
    by (simp add: sampleEnv_def sampleStorageList_def)
  have ns: "validateNamespaceConfig sampleEnv [nsEntry ''test'' [memoryEngine]] \<lparr>Volumes = []\<rparr> 2
              = Inr ()"
    by (simp add: validateNamespaceConfig_def lists namespaceStorageCheck_def
        validateNamespaceReplicationFactor_def validateMRTFields_def isMRTFieldSet_def
        validateStorageEngineDeviceList_def namespaceIndexCheck_def
        nsEntry_def memoryEngine_def getKey_def helper_defs)
  show ?thesis
    by (simp add: validateAerospikeConfig_def serviceOnlyConfig_def mkConfig_def getKey_def net ns)
qed

text \<open>
  C10.  The configuration \<open>serviceOnlyConfig\<close> passes the structural validation, which
  asks for the service connection only.  Taken as the old and the new configuration of an
  update, it makes \<open>validateAerospikeConfigUpdate\<close> panic: the heartbeat section is
  absent, and \<open>validateNetworkConnectionUpdate\<close> asserts it to be a map.
\<close>

theorem update_check_panics_without_heartbeat:
  "validateAerospikeConfig sampleEnv pdbOffCluster serviceOnlyConfig \<lparr>Volumes = []\<rparr> 2 = Inr ()
   \<and> validateNetworkConnectionUpdate (valueOf serviceOnlyConfig) (valueOf serviceOnlyConfig) ''service''
       = Inr ()
   \<and> validateNetworkConnectionUpdate (valueOf serviceOnlyConfig) (valueOf serviceOnlyConfig) ''heartbeat''
       = Inl (Panic ''interface conversion: interface {} is not map[string]interface {}'')
   \<and> validateAerospikeConfigUpdate sampleEnv serviceOnlyConfig serviceOnlyConfig None
       = Inl (Panic ''interface conversion: interface {} is not map[string]interface {}'')"
proof -
  have sec: "validateSecurityConfigUpdate sampleEnv serviceOnlyConfig serviceOnlyConfig None = Inr ()"
    by (simp add: validateSecurityConfigUpdate_def validateSecurityContext_def sampleEnv_def
        wrapErr_def serviceOnlyConfig_def mkConfig_def valueOf_def)
  have tls: "validateTLSUpdate (valueOf serviceOnlyConfig) (valueOf serviceOnlyConfig) = Inr ()"
    by (simp add: validateTLSUpdate_def serviceOnlyConfig_def mkConfig_def valueOf_def getKey_def)
  have svc: "validateNetworkConnectionUpdate (valueOf serviceOnlyConfig) (valueOf serviceOnlyConfig)
               ''service'' = Inr ()"
    by (simp add: validateNetworkConnectionUpdate_def validateNetworkPortUpdate_def networkPorts_def
        serviceOnlyConfig_def mkConfig_def valueOf_def getKey_def)
  have hb: "validateNetworkConnectionUpdate (valueOf serviceOnlyConfig) (valueOf serviceOnlyConfig)
              ''heartbeat''
            = Inl (Panic ''interface conversion: interface {} is not map[string]interface {}'')"
    by (simp add: validateNetworkConnectionUpdate_def serviceOnlyConfig_def mkConfig_def
        valueOf_def getKey_def asMap_def)
  have "validateAerospikeConfigUpdate sampleEnv serviceOnlyConfig serviceOnlyConfig None
       = Inl (Panic ''interface conversion: interface {} is not map[string]interface {}'')"
    by (simp add: validateAerospikeConfigUpdate_def sec tls networkConnectionTypes_def svc hb)
  with serviceOnly_structure svc hb show ?thesis by simp
qed

section \<open>An update that changes nothing\<close>









lemma ifaceEq_True: "ifaceEq a b = Inr True \<Longrightarrow> a = b"
  by (auto simp: ifaceEq_def split: val.splits)



























end
